theory Spec2Isabelle
  imports Main "HOL-Library.AList" "HOL-Library.Char_ord" "HOL-Library.List_Lexorder"
begin

section \<open>Python values\<close>

text \<open>
  The pipeline of \<^verbatim>\<open>portfolio/etl/pipeline.py\<close> works on what \<^verbatim>\<open>json.load\<close> returns:
  \<^verbatim>\<open>None\<close>, booleans, integers, floats, strings, lists and dictionaries with string
  keys. A dictionary is an association list in insertion order; \<^verbatim>\<open>json.load\<close> never
  produces a key twice. A float is carried by the text \<^verbatim>\<open>json.dumps\<close> writes for it
  (\<^verbatim>\<open>float.__repr__\<close>, or \<^verbatim>\<open>NaN\<close>, \<^verbatim>\<open>Infinity\<close>, \<^verbatim>\<open>-Infinity\<close>); float arithmetic
  is not modelled. A \<^typ>\<open>char\<close> stands for one code point below 256, so that
  \<^const>\<open>length\<close> is Python's \<^verbatim>\<open>len\<close> on such strings. The methods of
  \<^verbatim>\<open>ProjectETLPipeline\<close> keep their names, without the leading underscore; an
  exception is a value \<open>Inl err\<close>.
\<close>

datatype json =
    JNull
  | JBool bool
  | JInt int
  | JFloat string
  | JStr string
  | JArr "json list"
  | JObj "(string \<times> json) list"

type_synonym pydict = "(string \<times> json) list"

datatype error =
    KeyError string
  | TypeError
  | AttributeError
  | ValueError
  | OverflowError

text \<open>\<^verbatim>\<open>k in d\<close>, \<^verbatim>\<open>d.get(k, default)\<close>, \<^verbatim>\<open>d[k]\<close> and \<^verbatim>\<open>d[k] = v\<close>.\<close>

definition dict_contains :: "('k \<times> 'v) list \<Rightarrow> 'k \<Rightarrow> bool" where
  "dict_contains d k = (map_of d k \<noteq> None)"

definition dict_get :: "('k \<times> 'v) list \<Rightarrow> 'k \<Rightarrow> 'v \<Rightarrow> 'v" where
  "dict_get d k dflt = (case map_of d k of None \<Rightarrow> dflt | Some v \<Rightarrow> v)"

definition dict_item :: "(string \<times> 'v) list \<Rightarrow> string \<Rightarrow> error + 'v" where
  "dict_item d k = (case map_of d k of None \<Rightarrow> Inl (KeyError k) | Some v \<Rightarrow> Inr v)"

definition dict_set :: "('k \<times> 'v) list \<Rightarrow> 'k \<Rightarrow> 'v \<Rightarrow> ('k \<times> 'v) list" where
  "dict_set d k v = AList.update k v d"

text \<open>Truth value testing, as \<^verbatim>\<open>if x\<close> and \<^verbatim>\<open>not x\<close> do it.\<close>

fun truthy :: "json \<Rightarrow> bool" where
  "truthy JNull = False"
| "truthy (JBool b) = b"
| "truthy (JInt i) = (i \<noteq> 0)"
| "truthy (JFloat r) = (r \<noteq> ''0.0'' \<and> r \<noteq> ''-0.0'')"
| "truthy (JStr s) = (s \<noteq> [])"
| "truthy (JArr xs) = (xs \<noteq> [])"
| "truthy (JObj d) = (d \<noteq> [])"

text \<open>Only \<^verbatim>\<open>list\<close> and \<^verbatim>\<open>dict\<close> values are unhashable.\<close>

fun hashable :: "json \<Rightarrow> bool" where
  "hashable (JArr xs) = False"
| "hashable (JObj d) = False"
| "hashable v = True"

section \<open>Python strings\<close>

text \<open>
  \<^verbatim>\<open>str.isspace\<close> (also the class \<^verbatim>\<open>\s\<close> of \<^verbatim>\<open>re\<close> on \<^verbatim>\<open>str\<close> patterns), the class
  \<^verbatim>\<open>\w\<close> (alphanumeric or underscore) and \<^verbatim>\<open>str.lower\<close>, on the code points below 256.
\<close>

definition py_isspace :: "char \<Rightarrow> bool" where
  "py_isspace c =
     (let n = (of_char c :: nat)
      in (9 \<le> n \<and> n \<le> 13) \<or> (28 \<le> n \<and> n \<le> 32) \<or> n = 133 \<or> n = 160)"

definition re_word :: "char \<Rightarrow> bool" where
  "re_word c =
     (let n = (of_char c :: nat)
      in (48 \<le> n \<and> n \<le> 57) \<or> (65 \<le> n \<and> n \<le> 90) \<or> n = 95 \<or> (97 \<le> n \<and> n \<le> 122)
         \<or> n = 170 \<or> n = 178 \<or> n = 179 \<or> n = 181 \<or> n = 185 \<or> n = 186
         \<or> (188 \<le> n \<and> n \<le> 190) \<or> (192 \<le> n \<and> n \<le> 214) \<or> (216 \<le> n \<and> n \<le> 246)
         \<or> 248 \<le> n)"

definition lower_char :: "char \<Rightarrow> char" where
  "lower_char c =
     (let n = (of_char c :: nat)
      in if (65 \<le> n \<and> n \<le> 90) \<or> (192 \<le> n \<and> n \<le> 222 \<and> n \<noteq> 215)
         then char_of (n + 32) else c)"

definition py_lower :: "string \<Rightarrow> string" where
  "py_lower s = map lower_char s"

text \<open>\<^verbatim>\<open>s.strip()\<close> and \<^verbatim>\<open>s.strip(chars)\<close>.\<close>

definition strip_where :: "(char \<Rightarrow> bool) \<Rightarrow> string \<Rightarrow> string" where
  "strip_where P s = rev (dropWhile P (rev (dropWhile P s)))"

definition py_strip :: "string \<Rightarrow> string" where
  "py_strip s = strip_where py_isspace s"

definition py_strip_chars :: "string \<Rightarrow> string \<Rightarrow> string" where
  "py_strip_chars chars s = strip_where (\<lambda>c. c \<in> set chars) s"

text \<open>
  \<^verbatim>\<open>re.sub\<close> for the two shapes of pattern the pipeline uses: a character class
  replaced by the empty string, and one or more characters of a class replaced by a
  fixed text (leftmost, longest, not overlapping).
\<close>

definition re_sub_class_empty :: "(char \<Rightarrow> bool) \<Rightarrow> string \<Rightarrow> string" where
  "re_sub_class_empty P s = filter (\<lambda>c. \<not> P c) s"

function re_sub_class_plus :: "(char \<Rightarrow> bool) \<Rightarrow> string \<Rightarrow> string \<Rightarrow> string" where
  "re_sub_class_plus P rep [] = []"
| "re_sub_class_plus P rep (c # cs) =
     (if P c then rep @ re_sub_class_plus P rep (dropWhile P cs)
      else c # re_sub_class_plus P rep cs)"
  by pat_completeness auto
termination
  by (relation "measure (\<lambda>(P, rep, s). length s)")
     (auto simp: length_dropWhile_le less_Suc_eq_le)

text \<open>\<^verbatim>\<open>s.replace(old, new)\<close> for a one-character \<^verbatim>\<open>old\<close>.\<close>

definition py_replace_char :: "char \<Rightarrow> string \<Rightarrow> string \<Rightarrow> string" where
  "py_replace_char old new s = concat (map (\<lambda>c. if c = old then new else [c]) s)"

text \<open>\<^verbatim>\<open>s.split(sep)\<close> for a non-empty \<^verbatim>\<open>sep\<close>, and \<^verbatim>\<open>sep.join(parts)\<close>.\<close>

function split_from :: "string \<Rightarrow> string \<Rightarrow> string \<Rightarrow> string list" where
  "split_from sep piece s =
     (if s = [] then [rev piece]
      else if sep \<noteq> [] \<and> take (length sep) s = sep
           then rev piece # split_from sep [] (drop (length sep) s)
      else split_from sep (hd s # piece) (tl s))"
  by pat_completeness auto
termination
  by (relation "measure (\<lambda>(sep, piece, s). length s)") auto

definition py_split :: "string \<Rightarrow> string \<Rightarrow> string list" where
  "py_split sep s = split_from sep [] s"

fun py_join :: "string \<Rightarrow> string list \<Rightarrow> string" where
  "py_join sep [] = []"
| "py_join sep [p] = p"
| "py_join sep (p # q # ps) = p @ sep @ py_join sep (q # ps)"

text \<open>\<^verbatim>\<open>str(n)\<close> for an integer.\<close>

definition digit_char :: "nat \<Rightarrow> char" where
  "digit_char d = char_of (48 + d)"

fun str_nat :: "nat \<Rightarrow> string" where
  "str_nat n = (if n < 10 then [digit_char n] else str_nat (n div 10) @ [digit_char (n mod 10)])"

definition str_int :: "int \<Rightarrow> string" where
  "str_int i = (if i < 0 then CHR ''-'' # str_nat (nat (- i)) else str_nat (nat i))"

section \<open>Slug and description\<close>

text \<open>
  \<^verbatim>\<open>_generate_slug\<close>: lower-case and strip, delete what is not \<^verbatim>\<open>[\w\s-]\<close>, replace
  each run of \<^verbatim>\<open>[\s_-]\<close> by one hyphen, strip hyphens. A title that is not a string
  has no \<^verbatim>\<open>lower\<close>.
\<close>

definition slug_of_title :: "string \<Rightarrow> string" where
  "slug_of_title title =
     (let slug = py_strip (py_lower title);
          slug = re_sub_class_empty (\<lambda>c. \<not> (re_word c \<or> py_isspace c \<or> c = CHR ''-'')) slug;
          slug = re_sub_class_plus (\<lambda>c. py_isspace c \<or> c = CHR ''_'' \<or> c = CHR ''-'') ''-'' slug
      in py_strip_chars ''-'' slug)"

fun generate_slug :: "json \<Rightarrow> error + string" where
  "generate_slug (JStr title) = Inr (slug_of_title title)"
| "generate_slug v = Inl AttributeError"

text \<open>
  \<^verbatim>\<open>_format_description\<close>: a falsy description gives the empty string; otherwise the
  description is split at \<^verbatim>\<open>'. '\<close> (only a string has \<^verbatim>\<open>split\<close>).
\<close>

definition format_text :: "string \<Rightarrow> string" where
  "format_text description =
     (let sentences = py_split ''. '' description
      in if length sentences > 1
         then py_join ''. '' (butlast sentences) @ [CHR ''.'', CHR 0x0A, CHR 0x0A]
              @ last sentences @ ''.''
         else description)"

definition format_description :: "json \<Rightarrow> error + string" where
  "format_description description =
     (if \<not> truthy description then Inr []
      else case description of
             JStr s \<Rightarrow> Inr (format_text s)
           | _ \<Rightarrow> Inl AttributeError)"

section \<open>Errors and dates\<close>

text \<open>An exception ends the evaluation of a sequence of statements.\<close>

definition bind_err :: "error + 'a \<Rightarrow> ('a \<Rightarrow> error + 'b) \<Rightarrow> error + 'b" where
  "bind_err m f = (case m of Inl e \<Rightarrow> Inl e | Inr x \<Rightarrow> f x)"

text \<open>
  A \<^verbatim>\<open>datetime\<close> is its wall-clock reading in microseconds since
  \<^verbatim>\<open>0001-01-01T00:00:00\<close> and, when it is offset-aware, its UTC offset in
  microseconds. A \<^verbatim>\<open>timedelta\<close> is a number of microseconds; its \<^verbatim>\<open>days\<close> attribute
  is the quotient of the floor division by one day, since \<^verbatim>\<open>timedelta\<close> keeps
  \<^verbatim>\<open>0 <= seconds < 86400\<close>. Subtracting or ordering a naive and an aware
  \<^verbatim>\<open>datetime\<close> raises \<^verbatim>\<open>TypeError\<close>.
\<close>

datatype datetime = Datetime (local_us: int) (utcoffset: "int option")

definition day_us :: int where
  "day_us = 86400000000"

definition timedelta_days :: "int \<Rightarrow> int" where
  "timedelta_days td = td div day_us"

definition datetime_sub :: "datetime \<Rightarrow> datetime \<Rightarrow> error + int" where
  "datetime_sub a b =
     (case (utcoffset a, utcoffset b) of
        (None, None) \<Rightarrow> Inr (local_us a - local_us b)
      | (Some oa, Some ob) \<Rightarrow> Inr ((local_us a - oa) - (local_us b - ob))
      | _ \<Rightarrow> Inl TypeError)"

definition datetime_gt :: "datetime \<Rightarrow> datetime \<Rightarrow> error + bool" where
  "datetime_gt a b =
     (case (utcoffset a, utcoffset b) of
        (None, None) \<Rightarrow> Inr (local_us a > local_us b)
      | (Some oa, Some ob) \<Rightarrow> Inr (local_us a - oa > local_us b - ob)
      | _ \<Rightarrow> Inl TypeError)"

text \<open>
  What the pipeline takes from the Python library and from its environment:
  \<^item> \<open>md5_hexdigest\<close>: \<^verbatim>\<open>hashlib.md5(text.encode()).hexdigest()\<close>;
  \<^item> \<open>fromisoformat\<close>: \<^verbatim>\<open>datetime.fromisoformat\<close>, \<^const>\<open>None\<close> where it raises
    \<^verbatim>\<open>ValueError\<close>;
  \<^item> \<open>start_stamp\<close>: the text of \<^verbatim>\<open>datetime.now().isoformat()\<close> when \<^verbatim>\<open>transform\<close>
    starts;
  \<^item> \<open>clock\<close>: \<open>clock i\<close> is the reading of \<^verbatim>\<open>datetime.now()\<close> (a naive
    \<^verbatim>\<open>datetime\<close>) while record number \<open>i\<close> of the input is folded into the
    analytics.
\<close>

record pylib =
  md5_hexdigest :: "string \<Rightarrow> string"
  fromisoformat :: "string \<Rightarrow> datetime option"
  start_stamp :: string
  clock :: "nat \<Rightarrow> int"

text \<open>\<^verbatim>\<open>datetime.fromisoformat(x.replace('Z', '+00:00'))\<close>; only a string has \<^verbatim>\<open>replace\<close>.\<close>

definition parse_iso :: "pylib \<Rightarrow> json \<Rightarrow> error + datetime" where
  "parse_iso L x =
     (case x of
        JStr s \<Rightarrow> (case fromisoformat L (py_replace_char CHR ''Z'' ''+00:00'' s) of
                     None \<Rightarrow> Inl ValueError
                   | Some d \<Rightarrow> Inr d)
      | _ \<Rightarrow> Inl AttributeError)"

text \<open>\<^verbatim>\<open>_calculate_duration\<close>: the body of the \<^verbatim>\<open>try\<close>, then the bare \<^verbatim>\<open>except\<close>.\<close>

definition calculate_duration_try :: "pylib \<Rightarrow> json \<Rightarrow> json \<Rightarrow> error + int" where
  "calculate_duration_try L start_date end_date =
     bind_err (parse_iso L start_date) (\<lambda>start_dt.
     bind_err (parse_iso L end_date) (\<lambda>end_dt.
     bind_err (datetime_sub end_dt start_dt) (\<lambda>td.
     Inr (timedelta_days td))))"

definition calculate_duration :: "pylib \<Rightarrow> json \<Rightarrow> json \<Rightarrow> int" where
  "calculate_duration L start_date end_date =
     (case calculate_duration_try L start_date end_date of
        Inl e \<Rightarrow> 0
      | Inr days \<Rightarrow> days)"

text \<open>
  \<^verbatim>\<open>_is_recent_project\<close>: \<^verbatim>\<open>datetime.now() - timedelta(days=180)\<close> raises
  \<^verbatim>\<open>OverflowError\<close> before year 1; every exception gives \<^verbatim>\<open>False\<close>.
\<close>

definition is_recent_project_try :: "pylib \<Rightarrow> int \<Rightarrow> pydict \<Rightarrow> error + bool" where
  "is_recent_project_try L now project =
     (let end_date = dict_get project ''endDate'' (dict_get project ''startDate'' (JStr []))
      in if \<not> truthy end_date then Inr False
         else bind_err (parse_iso L end_date) (\<lambda>project_date.
              bind_err (if now - 180 * day_us < 0 then Inl OverflowError
                        else Inr (Datetime (now - 180 * day_us) None)) (\<lambda>six_months_ago.
              datetime_gt project_date six_months_ago)))"

definition is_recent_project :: "pylib \<Rightarrow> int \<Rightarrow> pydict \<Rightarrow> bool" where
  "is_recent_project L now project =
     (case is_recent_project_try L now project of
        Inl e \<Rightarrow> False
      | Inr b \<Rightarrow> b)"

section \<open>Content hash\<close>

text \<open>
  \<^verbatim>\<open>json.dumps(project, sort_keys=True)\<close>: the default separators, items of a
  dictionary in the order of their keys, strings escaped to ASCII.
\<close>

definition hex_char :: "nat \<Rightarrow> char" where
  "hex_char d = (if d < 10 then char_of (48 + d) else char_of (87 + d))"

definition escape_char :: "char \<Rightarrow> string" where
  "escape_char c =
     (let n = (of_char c :: nat)
      in if c = CHR 0x22 then [CHR 0x5C, CHR 0x22]
         else if c = CHR 0x5C then [CHR 0x5C, CHR 0x5C]
         else if n = 8 then [CHR 0x5C, CHR ''b'']
         else if n = 12 then [CHR 0x5C, CHR ''f'']
         else if n = 10 then [CHR 0x5C, CHR ''n'']
         else if n = 13 then [CHR 0x5C, CHR ''r'']
         else if n = 9 then [CHR 0x5C, CHR ''t'']
         else if n < 32 \<or> 126 < n
              then [CHR 0x5C, CHR ''u'', CHR ''0'', CHR ''0'', hex_char (n div 16), hex_char (n mod 16)]
         else [c])"

definition encode_basestring_ascii :: "string \<Rightarrow> string" where
  "encode_basestring_ascii s = [CHR 0x22] @ concat (map escape_char s) @ [CHR 0x22]"

function dumps :: "json \<Rightarrow> string" where
  "dumps JNull = ''null''"
| "dumps (JBool b) = (if b then ''true'' else ''false'')"
| "dumps (JInt i) = str_int i"
| "dumps (JFloat r) = r"
| "dumps (JStr s) = encode_basestring_ascii s"
| "dumps (JArr xs) = ''['' @ py_join '', '' (map dumps xs) @ '']''"
| "dumps (JObj d) =
     ''{'' @ py_join '', ''
              (map (\<lambda>kv. encode_basestring_ascii (fst kv) @ '': '' @ dumps (snd kv))
                   (sort_key fst d)) @ ''}''"
  by pat_completeness auto
termination
proof (relation "measure size")
  fix d :: "(string \<times> json) list" and kv :: "string \<times> json"
  assume "kv \<in> set (sort_key fst d)"
  then have "kv \<in> set d" by simp
  then have "size (snd kv) < Suc (size_list (size_prod (\<lambda>_. 0) size) d)"
    by (induction d) (auto simp: less_Suc_eq_le)
  then show "(snd kv, JObj d) \<in> measure size" by simp
next
  fix xs :: "json list" and x :: json
  assume "x \<in> set xs"
  then have "size x < Suc (size_list size xs)"
    by (induction xs) (auto simp: less_Suc_eq_le)
  then show "(x, JArr xs) \<in> measure size" by simp
qed simp

text \<open>\<^verbatim>\<open>_generate_content_hash\<close>; the dump is ASCII, so \<^verbatim>\<open>encode\<close> keeps it.\<close>

definition generate_content_hash :: "pylib \<Rightarrow> pydict \<Rightarrow> string" where
  "generate_content_hash L project = md5_hexdigest L (dumps (JObj project))"

section \<open>SEO metadata and data quality\<close>

text \<open>
  \<^verbatim>\<open>x[:n]\<close>, \<^verbatim>\<open>sep.join(x)\<close> and \<^verbatim>\<open>len(x)\<close> on a JSON value. A string and a list can
  be sliced; \<^verbatim>\<open>join\<close> iterates a list, the characters of a string or the keys of a
  dictionary and wants strings; numbers, booleans and \<^verbatim>\<open>None\<close> have no length.
  Slicing a dictionary raises \<^verbatim>\<open>TypeError\<close> (\<^verbatim>\<open>KeyError\<close> from Python 3.12 on, where
  a slice is hashable; the model says \<^verbatim>\<open>TypeError\<close>).
\<close>

fun slice_to :: "nat \<Rightarrow> json \<Rightarrow> error + json" where
  "slice_to n (JStr s) = Inr (JStr (take n s))"
| "slice_to n (JArr xs) = Inr (JArr (take n xs))"
| "slice_to n v = Inl TypeError"

fun str_of :: "json \<Rightarrow> string option" where
  "str_of (JStr s) = Some s"
| "str_of v = None"

fun join_json :: "string \<Rightarrow> json \<Rightarrow> error + string" where
  "join_json sep (JArr xs) =
     (if list_all (\<lambda>x. str_of x \<noteq> None) xs
      then Inr (py_join sep (map (\<lambda>x. case str_of x of Some s \<Rightarrow> s | None \<Rightarrow> []) xs))
      else Inl TypeError)"
| "join_json sep (JStr s) = Inr (py_join sep (map (\<lambda>c. [c]) s))"
| "join_json sep (JObj d) = Inr (py_join sep (map fst d))"
| "join_json sep v = Inl TypeError"

fun py_len :: "json \<Rightarrow> error + nat" where
  "py_len (JStr s) = Inr (length s)"
| "py_len (JArr xs) = Inr (length xs)"
| "py_len (JObj d) = Inr (length d)"
| "py_len v = Inl TypeError"

text \<open>
  \<^verbatim>\<open>_generate_seo_metadata\<close>: the three entries of the dictionary display are
  evaluated in order. Only a dictionary has \<^verbatim>\<open>get\<close>.
\<close>

definition generate_seo_metadata :: "pydict \<Rightarrow> error + pydict" where
  "generate_seo_metadata project =
     bind_err (slice_to 160 (dict_get project ''shortDescription'' (JStr []))) (\<lambda>meta_description.
     bind_err (slice_to 5 (dict_get project ''technologies'' (JArr []))) (\<lambda>first5.
     bind_err (join_json '', '' first5) (\<lambda>keywords.
     bind_err (case dict_get project ''content'' (JObj []) of
                 JObj content \<Rightarrow> Inr (dict_get content ''overview'' (JStr []))
               | _ \<Rightarrow> Inl AttributeError) (\<lambda>overview.
     bind_err (py_len overview) (\<lambda>n.
     Inr [(''meta_description'', meta_description),
          (''keywords'', JStr keywords),
          (''reading_time'', JStr (str_int (min (max (int n div 200) 1) 10)))])))))"

text \<open>
  \<^verbatim>\<open>_get_nested_value\<close>: walk the keys of the dotted path; \<^const>\<open>JNull\<close> is Python's
  \<^verbatim>\<open>None\<close>, returned at a missing key, at a value that is no dictionary, and for a
  falsy value.
\<close>

fun walk_keys :: "json \<Rightarrow> string list \<Rightarrow> json option" where
  "walk_keys current [] = Some current"
| "walk_keys current (key # keys) =
     (case current of
        JObj d \<Rightarrow> (case map_of d key of None \<Rightarrow> None | Some v \<Rightarrow> walk_keys v keys)
      | _ \<Rightarrow> None)"

definition get_nested_value :: "json \<Rightarrow> string \<Rightarrow> json" where
  "get_nested_value obj path =
     (case walk_keys obj (py_split ''.'' path) of
        None \<Rightarrow> JNull
      | Some current \<Rightarrow> if truthy current then current else JNull)"

text \<open>
  \<^verbatim>\<open>_calculate_data_quality_score\<close>; \<^verbatim>\<open>min(score, 100.0)\<close> is the integer \<^verbatim>\<open>score\<close>
  unless the float is smaller.
\<close>

definition checks :: "(string \<times> int) list" where
  "checks =
     [(''title'', 10), (''shortDescription'', 15), (''technologies'', 10),
      (''content.overview'', 20), (''content.challenge'', 10), (''content.solution'', 15),
      (''startDate'', 5), (''endDate'', 5), (''images'', 10)]"

definition calculate_data_quality_score :: "pydict \<Rightarrow> json" where
  "calculate_data_quality_score project =
     (let score = fold (\<lambda>(field, weight) score.
                          if truthy (get_nested_value (JObj project) field)
                          then score + weight else score) checks 0
      in if score \<le> 100 then JInt score else JFloat ''100.0'')"

section \<open>Enrichment\<close>

text \<open>
  \<^verbatim>\<open>_enrich_project_data\<close>: \<^verbatim>\<open>enriched\<close> starts as a copy of the record and receives
  the computed fields; every computation reads the original record.
\<close>

definition enrich_project_data :: "pylib \<Rightarrow> pydict \<Rightarrow> error + pydict" where
  "enrich_project_data L project =
     (let enriched = project
      in bind_err (if \<not> dict_contains enriched ''slug''
                   then bind_err (dict_item project ''title'') (\<lambda>title.
                        bind_err (generate_slug title) (\<lambda>slug.
                        Inr (dict_set enriched ''slug'' (JStr slug))))
                   else Inr enriched) (\<lambda>enriched.
         bind_err (if dict_contains project ''startDate'' \<and> dict_contains project ''endDate''
                   then bind_err (dict_item project ''startDate'') (\<lambda>start_date.
                        bind_err (dict_item project ''endDate'') (\<lambda>end_date.
                        Inr (dict_set enriched ''duration_days''
                               (JInt (calculate_duration L start_date end_date)))))
                   else Inr enriched) (\<lambda>enriched.
         let enriched = dict_set enriched ''content_hash'' (JStr (generate_content_hash L project))
         in bind_err (generate_seo_metadata project) (\<lambda>seo.
            let enriched = dict_set enriched ''seo_metadata'' (JObj seo);
                enriched = dict_set enriched ''data_quality_score''
                             (calculate_data_quality_score project)
            in bind_err (format_description (dict_get project ''shortDescription'' (JStr [])))
                 (\<lambda>formatted.
            Inr (dict_set enriched ''formatted_description'' (JStr formatted)))))))"

section \<open>Analytics\<close>

text \<open>
  The analytics dictionary maps names to counts, distributions (dictionaries from
  labels to counts), lists of summaries, texts and the insights. A label is any
  hashable JSON value; labels are compared as JSON values (Python would also identify
  \<^verbatim>\<open>1\<close>, \<^verbatim>\<open>1.0\<close> and \<^verbatim>\<open>True\<close>). The two floats of the insights are kept as the
  expressions that produce them: \<open>Percent_of c t\<close> is \<^verbatim>\<open>c / t * 100\<close> and
  \<open>Rounded_mean ds\<close> is \<^verbatim>\<open>round(sum(ds) / len(ds), 1)\<close>.
\<close>

datatype insight =
    Name_count json int
  | Percent_of int int
  | Int_zero
  | Rounded_mean "json list"

datatype aval =
    AInt int
  | ADist "(json \<times> int) list"
  | AList "json list"
  | AStr string
  | AInsights "(string \<times> insight) list"

type_synonym analytics_dict = "(string \<times> aval) list"

fun aval_truthy :: "aval \<Rightarrow> bool" where
  "aval_truthy (AInt i) = (i \<noteq> 0)"
| "aval_truthy (ADist d) = (d \<noteq> [])"
| "aval_truthy (AList xs) = (xs \<noteq> [])"
| "aval_truthy (AStr s) = (s \<noteq> [])"
| "aval_truthy (AInsights d) = (d \<noteq> [])"

text \<open>The methods \<^verbatim>\<open>get\<close> and \<^verbatim>\<open>items\<close> want a dictionary, \<^verbatim>\<open>append\<close> a list.\<close>

fun dist_of :: "aval \<Rightarrow> error + (json \<times> int) list" where
  "dist_of (ADist d) = Inr d"
| "dist_of v = Inl AttributeError"

fun list_of_aval :: "aval \<Rightarrow> error + json list" where
  "list_of_aval (AList xs) = Inr xs"
| "list_of_aval v = Inl AttributeError"

text \<open>\<^verbatim>\<open>analytics[name][key] = analytics[name].get(key, 0) + 1\<close>\<close>

definition count_in :: "analytics_dict \<Rightarrow> string \<Rightarrow> json \<Rightarrow> error + analytics_dict" where
  "count_in a name key =
     bind_err (dict_item a name) (\<lambda>v.
     bind_err (dist_of v) (\<lambda>dist.
     if \<not> hashable key then Inl TypeError
     else Inr (dict_set a name (ADist (dict_set dist key (dict_get dist key 0 + 1))))))"

text \<open>\<^verbatim>\<open>analytics[name].append(summary)\<close>, the summary being evaluated after the lookup.\<close>

definition append_to ::
  "analytics_dict \<Rightarrow> string \<Rightarrow> error + json \<Rightarrow> error + analytics_dict" where
  "append_to a name summary =
     bind_err (dict_item a name) (\<lambda>v.
     bind_err (list_of_aval v) (\<lambda>xs.
     bind_err summary (\<lambda>s.
     Inr (dict_set a name (AList (xs @ [s]))))))"

text \<open>What a \<^verbatim>\<open>for\<close> loop over a JSON value visits.\<close>

fun iter_items :: "json \<Rightarrow> error + json list" where
  "iter_items (JArr xs) = Inr xs"
| "iter_items (JStr s) = Inr (map (\<lambda>c. JStr [c]) s)"
| "iter_items (JObj d) = Inr (map (\<lambda>kv. JStr (fst kv)) d)"
| "iter_items v = Inl TypeError"

fun count_all :: "analytics_dict \<Rightarrow> string \<Rightarrow> json list \<Rightarrow> error + analytics_dict" where
  "count_all a name [] = Inr a"
| "count_all a name (tech # techs) =
     (case count_in a name tech of
        Inl e \<Rightarrow> Inl e
      | Inr a' \<Rightarrow> count_all a' name techs)"

text \<open>
  The summaries of \<^verbatim>\<open>_update_analytics\<close>: \<^verbatim>\<open>project['id']\<close> and
  \<^verbatim>\<open>project['title']\<close> raise \<^verbatim>\<open>KeyError\<close> on a record without them.
\<close>

definition recent_summary :: "pydict \<Rightarrow> error + json" where
  "recent_summary project =
     bind_err (dict_item project ''id'') (\<lambda>ident.
     bind_err (dict_item project ''title'') (\<lambda>title.
     Inr (JObj [(''id'', ident), (''title'', title),
                (''category'', dict_get project ''category'' (JStr [])),
                (''startDate'', dict_get project ''startDate'' (JStr []))])))"

definition featured_summary :: "pydict \<Rightarrow> error + json" where
  "featured_summary project =
     bind_err (dict_item project ''id'') (\<lambda>ident.
     bind_err (dict_item project ''title'') (\<lambda>title.
     bind_err (slice_to 3 (dict_get project ''technologies'' (JArr []))) (\<lambda>first3.
     Inr (JObj [(''id'', ident), (''title'', title),
                (''category'', dict_get project ''category'' (JStr [])),
                (''technologies'', first3)]))))"

text \<open>\<^verbatim>\<open>_update_analytics\<close>, with the reading of the clock as \<open>now\<close>.\<close>

definition update_analytics ::
  "pylib \<Rightarrow> int \<Rightarrow> analytics_dict \<Rightarrow> pydict \<Rightarrow> error + analytics_dict" where
  "update_analytics L now a project =
     bind_err (count_in a ''categories''
                 (dict_get project ''category'' (JStr ''uncategorized''))) (\<lambda>a.
     bind_err (iter_items (dict_get project ''technologies'' (JArr []))) (\<lambda>techs.
     bind_err (count_all a ''technologies'' techs) (\<lambda>a.
     bind_err (count_in a ''status_distribution''
                 (dict_get project ''status'' (JStr ''unknown''))) (\<lambda>a.
     bind_err (if is_recent_project L now project
               then append_to a ''recent_projects'' (recent_summary project)
               else Inr a) (\<lambda>a.
     if truthy (dict_get project ''featured'' (JBool False))
     then append_to a ''featured_projects'' (featured_summary project)
     else Inr a)))))"

section \<open>Insights\<close>

text \<open>\<^verbatim>\<open>max(d.items(), key=lambda x: x[1])\<close>: the first item with the largest count.\<close>

fun first_max :: "'k \<times> int \<Rightarrow> ('k \<times> int) list \<Rightarrow> 'k \<times> int" where
  "first_max best [] = best"
| "first_max best (x # xs) = first_max (if snd x > snd best then x else best) xs"

definition most_counted :: "aval \<Rightarrow> error + insight option" where
  "most_counted v =
     (if aval_truthy v
      then bind_err (dist_of v) (\<lambda>d.
           case d of
             [] \<Rightarrow> Inr None
           | x # xs \<Rightarrow> (case first_max x xs of (name, n) \<Rightarrow> Inr (Some (Name_count name n))))
      else Inr None)"

text \<open>What iterating a value of the analytics dictionary visits.\<close>

fun aval_iter :: "aval \<Rightarrow> error + json list" where
  "aval_iter (AList xs) = Inr xs"
| "aval_iter (ADist d) = Inr (map fst d)"
| "aval_iter (AStr s) = Inr (map (\<lambda>c. JStr [c]) s)"
| "aval_iter (AInsights d) = Inr (map (\<lambda>kv. JStr (fst kv)) d)"
| "aval_iter (AInt i) = Inl TypeError"

text \<open>
  \<^verbatim>\<open>[p for p in ... if p.get('status') == 'completed' and 'duration_days' in p]\<close>
\<close>

fun completed_with_duration :: "json list \<Rightarrow> error + pydict list" where
  "completed_with_duration [] = Inr []"
| "completed_with_duration (p # ps) =
     (case p of
        JObj d \<Rightarrow>
          bind_err (completed_with_duration ps) (\<lambda>rest.
          Inr (if dict_get d ''status'' JNull = JStr ''completed'' \<and> dict_contains d ''duration_days''
               then d # rest else rest))
      | _ \<Rightarrow> Inl AttributeError)"

text \<open>\<^verbatim>\<open>_generate_insights\<close>\<close>

definition generate_insights :: "analytics_dict \<Rightarrow> error + (string \<times> insight) list" where
  "generate_insights a =
     (let insights = []
      in bind_err (dict_item a ''technologies'') (\<lambda>techs.
         bind_err (most_counted techs) (\<lambda>most_used_tech.
         let insights = (case most_used_tech of
                           None \<Rightarrow> insights
                         | Some m \<Rightarrow> dict_set insights ''most_used_technology'' m)
         in bind_err (dict_item a ''categories'') (\<lambda>cats.
            bind_err (most_counted cats) (\<lambda>most_common_category.
            let insights = (case most_common_category of
                              None \<Rightarrow> insights
                            | Some m \<Rightarrow> dict_set insights ''most_common_category'' m)
            in bind_err (dict_item a ''total_projects'') (\<lambda>total.
               bind_err (dict_item a ''status_distribution'') (\<lambda>status.
               bind_err (dist_of status) (\<lambda>dist.
               let completed_projects = dict_get dist (JStr ''completed'') 0
               in bind_err (case total of
                              AInt total_projects \<Rightarrow>
                                Inr (if total_projects > 0
                                     then Percent_of completed_projects total_projects
                                     else Int_zero)
                            | _ \<Rightarrow> Inl TypeError) (\<lambda>rate.
                  let insights = dict_set insights ''completion_rate'' rate
                  in bind_err (case map_of a ''projects'' of
                                 None \<Rightarrow> Inr []
                               | Some v \<Rightarrow> aval_iter v) (\<lambda>all_projects.
                     bind_err (completed_with_duration all_projects)
                       (\<lambda>completed_projects_data.
                     Inr (if completed_projects_data \<noteq> []
                          then dict_set insights ''average_project_duration_days''
                                 (Rounded_mean
                                    (map (\<lambda>p. dict_get p ''duration_days'' JNull)
                                         completed_projects_data))
                          else insights))))))))))))"

section \<open>The transform stage\<close>

text \<open>
  \<^verbatim>\<open>transform\<close>: the analytics dictionary is created, every record is enriched and
  folded into it in the order of the input, then the insights are stored. An exception
  leaves the loop and the function.
\<close>

record transformed =
  projects :: "pydict list"
  analytics :: analytics_dict

definition initial_analytics :: "pylib \<Rightarrow> pydict list \<Rightarrow> analytics_dict" where
  "initial_analytics L ps =
     [(''total_projects'', AInt (int (length ps))),
      (''categories'', ADist []),
      (''technologies'', ADist []),
      (''status_distribution'', ADist []),
      (''recent_projects'', AList []),
      (''featured_projects'', AList []),
      (''processing_timestamp'', AStr (start_stamp L)),
      (''data_quality_metrics'', ADist [])]"

fun transform_loop ::
  "pylib \<Rightarrow> nat \<Rightarrow> pydict list \<Rightarrow> pydict list \<Rightarrow> analytics_dict
     \<Rightarrow> error + (pydict list \<times> analytics_dict)" where
  "transform_loop L i [] transformed_projects a = Inr (transformed_projects, a)"
| "transform_loop L i (project # rest) transformed_projects a =
     (case enrich_project_data L project of
        Inl e \<Rightarrow> Inl e
      | Inr enriched_project \<Rightarrow>
          (case update_analytics L (clock L i) a enriched_project of
             Inl e \<Rightarrow> Inl e
           | Inr a' \<Rightarrow>
               transform_loop L (Suc i) rest (transformed_projects @ [enriched_project]) a'))"

definition transform :: "pylib \<Rightarrow> pydict list \<Rightarrow> error + transformed" where
  "transform L ps =
     (case transform_loop L 0 ps [] (initial_analytics L ps) of
        Inl e \<Rightarrow> Inl e
      | Inr (transformed_projects, a) \<Rightarrow>
          (case generate_insights a of
             Inl e \<Rightarrow> Inl e
           | Inr insights \<Rightarrow>
               Inr \<lparr>projects = transformed_projects,
                    analytics = dict_set a ''insights'' (AInsights insights)\<rparr>))"

section \<open>A reading of ISO dates for examples\<close>

text \<open>
  The properties below hold for every \<open>fromisoformat\<close>. Examples need one that
  computes: \<open>fromisoformat_core\<close> reads \<^verbatim>\<open>YYYY-MM-DD\<close>, \<^verbatim>\<open>YYYY-MM-DD?HH:MM:SS\<close> (any
  one character as separator) and the latter followed by \<^verbatim>\<open>+HH:MM\<close> or \<^verbatim>\<open>-HH:MM\<close>,
  as \<^verbatim>\<open>datetime.fromisoformat\<close> has read them since it exists. It answers
  \<^const>\<open>None\<close> on every other text, also where the library reads more. Days are
  counted as the library's \<^verbatim>\<open>_ymd2ord\<close> does, from day 1 on 1 January of year 1.
\<close>

definition is_digit :: "char \<Rightarrow> bool" where
  "is_digit c = (48 \<le> (of_char c :: nat) \<and> (of_char c :: nat) \<le> 57)"

definition number_of :: "string \<Rightarrow> int option" where
  "number_of s =
     (if s \<noteq> [] \<and> list_all is_digit s
      then Some (foldl (\<lambda>n c. 10 * n + (of_char c - 48)) 0 s)
      else None)"

definition is_leap :: "int \<Rightarrow> bool" where
  "is_leap y = (y mod 4 = 0 \<and> (y mod 100 \<noteq> 0 \<or> y mod 400 = 0))"

definition days_in_month :: "int \<Rightarrow> int \<Rightarrow> int" where
  "days_in_month y m =
     (if m = 2 then (if is_leap y then 29 else 28)
      else if m = 4 \<or> m = 6 \<or> m = 9 \<or> m = 11 then 30 else 31)"

definition days_before_year :: "int \<Rightarrow> int" where
  "days_before_year y = (y - 1) * 365 + (y - 1) div 4 - (y - 1) div 100 + (y - 1) div 400"

definition days_before_month :: "int \<Rightarrow> int \<Rightarrow> int" where
  "days_before_month y m =
     (if m = 1 then 0 else if m = 2 then 31 else if m = 3 then 59 else if m = 4 then 90
      else if m = 5 then 120 else if m = 6 then 151 else if m = 7 then 181
      else if m = 8 then 212 else if m = 9 then 243 else if m = 10 then 273
      else if m = 11 then 304 else 334)
     + (if m > 2 \<and> is_leap y then 1 else 0)"

definition ymd_to_ord :: "int \<Rightarrow> int \<Rightarrow> int \<Rightarrow> int" where
  "ymd_to_ord y m d = days_before_year y + days_before_month y m + d"

definition parse_ymd :: "string \<Rightarrow> int option" where
  "parse_ymd s =
     (if length s = 10 \<and> s ! 4 = CHR ''-'' \<and> s ! 7 = CHR ''-''
      then (case (number_of (take 4 s), number_of (take 2 (drop 5 s)), number_of (drop 8 s)) of
              (Some y, Some m, Some d) \<Rightarrow>
                if 1 \<le> y \<and> 1 \<le> m \<and> m \<le> 12 \<and> 1 \<le> d \<and> d \<le> days_in_month y m
                then Some ((ymd_to_ord y m d - 1) * day_us)
                else None
            | _ \<Rightarrow> None)
      else None)"

definition parse_hms :: "string \<Rightarrow> int option" where
  "parse_hms s =
     (if length s = 8 \<and> s ! 2 = CHR '':'' \<and> s ! 5 = CHR '':''
      then (case (number_of (take 2 s), number_of (take 2 (drop 3 s)), number_of (drop 6 s)) of
              (Some h, Some m, Some sec) \<Rightarrow>
                if h < 24 \<and> m < 60 \<and> sec < 60
                then Some ((h * 3600 + m * 60 + sec) * 1000000)
                else None
            | _ \<Rightarrow> None)
      else None)"

definition parse_offset :: "string \<Rightarrow> int option" where
  "parse_offset s =
     (if length s = 6 \<and> (s ! 0 = CHR ''+'' \<or> s ! 0 = CHR ''-'') \<and> s ! 3 = CHR '':''
      then (case (number_of (take 2 (drop 1 s)), number_of (drop 4 s)) of
              (Some h, Some m) \<Rightarrow>
                if h < 24 \<and> m < 60
                then Some ((if s ! 0 = CHR ''-'' then - 1 else 1)
                           * (h * 3600 + m * 60) * 1000000)
                else None
            | _ \<Rightarrow> None)
      else None)"

definition fromisoformat_core :: "string \<Rightarrow> datetime option" where
  "fromisoformat_core s =
     (if length s = 10
      then (case parse_ymd s of
              Some d \<Rightarrow> Some (Datetime d None)
            | None \<Rightarrow> None)
      else if length s = 19
      then (case (parse_ymd (take 10 s), parse_hms (drop 11 s)) of
              (Some d, Some t) \<Rightarrow> Some (Datetime (d + t) None)
            | _ \<Rightarrow> None)
      else if length s = 25
      then (case (parse_ymd (take 10 s), parse_hms (take 8 (drop 11 s)), parse_offset (drop 19 s)) of
              (Some d, Some t, Some off) \<Rightarrow> Some (Datetime (d + t) (Some off))
            | _ \<Rightarrow> None)
      else None)"

text \<open>
  A library for the examples: the run starts at noon of 4 November 2026 and the clock
  does not move; the digest is a stand-in (the text itself), no example depends on it.
\<close>

definition example_now :: int where
  "example_now = (ymd_to_ord 2026 11 4 - 1) * day_us + 12 * 3600 * 1000000"

definition example_lib :: pylib where
  "example_lib =
     \<lparr>md5_hexdigest = (\<lambda>text. text),
      fromisoformat = fromisoformat_core,
      start_stamp = ''2026-11-04T12:00:00'',
      clock = (\<lambda>i. example_now)\<rparr>"

section \<open>Notions of the specification\<close>

text \<open>A value as \<^verbatim>\<open>json.load\<close> builds it: no dictionary holds a key twice.\<close>

fun keys_distinct :: "json \<Rightarrow> bool" where
  "keys_distinct (JArr xs) = list_all keys_distinct xs"
| "keys_distinct (JObj d) = (distinct (map fst d) \<and> list_all (\<lambda>kv. keys_distinct (snd kv)) d)"
| "keys_distinct v = True"

text \<open>
  Two values are equal as key-value trees when they are the same scalar, lists of the
  same length with equal trees at each position, or dictionaries of the same size
  where every key of the first maps to an equal tree in the second; the order of the
  keys plays no role.
\<close>

fun same_tree :: "json \<Rightarrow> json \<Rightarrow> bool" where
  "same_tree (JArr xs) w =
     (case w of JArr ys \<Rightarrow> list_all2 same_tree xs ys | _ \<Rightarrow> False)"
| "same_tree (JObj d) w =
     (case w of
        JObj d' \<Rightarrow>
          length d = length d'
          \<and> list_all (\<lambda>kv. case map_of d' (fst kv) of
                             None \<Rightarrow> False
                           | Some v' \<Rightarrow> same_tree (snd kv) v') d
      | _ \<Rightarrow> False)"
| "same_tree v w = (v = w)"

text \<open>
  The field types of a project record in the data model of the specification, for the
  fields whose type the transform stage relies on. No field is required here.
\<close>

definition field_is :: "pydict \<Rightarrow> string \<Rightarrow> (json \<Rightarrow> bool) \<Rightarrow> bool" where
  "field_is p k P = (case map_of p k of None \<Rightarrow> True | Some v \<Rightarrow> P v)"

definition is_str :: "json \<Rightarrow> bool" where
  "is_str v = (str_of v \<noteq> None)"

definition is_str_list :: "json \<Rightarrow> bool" where
  "is_str_list v = (case v of JArr xs \<Rightarrow> list_all is_str xs | _ \<Rightarrow> False)"

definition is_content :: "json \<Rightarrow> bool" where
  "is_content v = (case v of JObj c \<Rightarrow> field_is c ''overview'' is_str | _ \<Rightarrow> False)"

definition record_typed :: "pydict \<Rightarrow> bool" where
  "record_typed p =
     (field_is p ''title'' is_str \<and> field_is p ''shortDescription'' is_str
      \<and> field_is p ''category'' is_str \<and> field_is p ''status'' is_str
      \<and> field_is p ''technologies'' is_str_list \<and> field_is p ''content'' is_content)"

text \<open>
  The instant of a \<^verbatim>\<open>datetime\<close> on the UTC scale (a naive one is taken at offset
  zero), and whether two of them are both naive or both aware.
\<close>

definition instant_us :: "datetime \<Rightarrow> int" where
  "instant_us d = local_us d - (case utcoffset d of None \<Rightarrow> 0 | Some off \<Rightarrow> off)"

definition same_awareness :: "datetime \<Rightarrow> datetime \<Rightarrow> bool" where
  "same_awareness a b = ((utcoffset a = None) = (utcoffset b = None))"

text \<open>The length of \<^verbatim>\<open>content.overview\<close>, zero when there is none.\<close>

definition overview_length :: "pydict \<Rightarrow> nat" where
  "overview_length p =
     (case map_of p ''content'' of
        Some (JObj c) \<Rightarrow>
          (case map_of c ''overview'' of
             Some v \<Rightarrow> (case py_len v of Inr n \<Rightarrow> n | Inl err \<Rightarrow> 0)
           | None \<Rightarrow> 0)
      | _ \<Rightarrow> 0)"

text \<open>The whole days of a \<^verbatim>\<open>timedelta\<close> when the quotient is truncated toward zero.\<close>

definition whole_days_toward_zero :: "int \<Rightarrow> int" where
  "whole_days_toward_zero td = (if td < 0 then - ((- td) div day_us) else td div day_us)"

section \<open>Example records\<close>

text \<open>The scenario of the specification: \<^verbatim>\<open>{"id": 1, "title": "My Cool App!", ...}\<close>\<close>

definition scenario_record :: pydict where
  "scenario_record =
     [(''id'', JInt 1), (''title'', JStr ''My Cool App!''),
      (''shortDescription'', JStr ''It works. It scales. It ships.'')]"

text \<open>A record that brings its own slug, with capitals, a space and a slash.\<close>

definition slugged_record :: pydict where
  "slugged_record = [(''id'', JInt 7), (''slug'', JStr ''Not A/Slug ''), (''title'', JStr ''T'')]"

text \<open>A record whose slug is the empty string, and that has no title.\<close>

definition empty_slug_record :: pydict where
  "empty_slug_record = [(''id'', JInt 8), (''slug'', JStr [])]"

text \<open>A completed project that ran for ten days.\<close>

definition completed_record :: pydict where
  "completed_record =
     [(''id'', JInt 1), (''title'', JStr ''A''), (''status'', JStr ''completed''),
      (''startDate'', JStr ''2024-01-01''), (''endDate'', JStr ''2024-01-11'')]"

text \<open>A record with neither title nor slug, and a featured record without id.\<close>

definition untitled_record :: pydict where
  "untitled_record = [(''id'', JInt 2), (''status'', JStr ''completed'')]"

definition featured_without_id :: pydict where
  "featured_without_id = [(''title'', JStr ''B''), (''featured'', JBool True)]"

text \<open>A record whose end date lies twelve hours before its start date.\<close>

definition reversed_record :: pydict where
  "reversed_record =
     [(''id'', JInt 3), (''title'', JStr ''R''),
      (''startDate'', JStr ''2024-01-02''), (''endDate'', JStr ''2024-01-01T12:00:00'')]"

text \<open>
  Two records that ended ten days before the run of the examples; the first gives its
  end date in UTC, with the suffix \<^verbatim>\<open>Z\<close>.
\<close>

definition recent_z_record :: pydict where
  "recent_z_record =
     [(''id'', JInt 4), (''title'', JStr ''Z''), (''endDate'', JStr ''2026-10-25T12:00:00Z'')]"

definition recent_naive_record :: pydict where
  "recent_naive_record =
     [(''id'', JInt 4), (''title'', JStr ''Z''), (''endDate'', JStr ''2026-10-25T12:00:00'')]"

text \<open>A record with an overview of 450 characters.\<close>

definition overview_record :: pydict where
  "overview_record =
     [(''id'', JInt 5), (''title'', JStr ''O''),
      (''content'', JObj [(''overview'', JStr (replicate 450 (CHR ''x'')))])]"

text \<open>The same record twice, its keys in two orders at both levels.\<close>

definition permuted_a :: pydict where
  "permuted_a =
     [(''id'', JInt 1), (''title'', JStr ''P''),
      (''content'', JObj [(''overview'', JStr ''o''), (''challenge'', JStr ''c'')]),
      (''technologies'', JArr [JStr ''x'', JStr ''y''])]"

definition permuted_b :: pydict where
  "permuted_b =
     [(''technologies'', JArr [JStr ''x'', JStr ''y'']),
      (''content'', JObj [(''challenge'', JStr ''c''), (''overview'', JStr ''o'')]),
      (''title'', JStr ''P''), (''id'', JInt 1)]"

text \<open>A record with id and title whose technologies are \<^verbatim>\<open>null\<close>.\<close>

definition null_technologies_record :: pydict where
  "null_technologies_record =
     [(''id'', JInt 6), (''title'', JStr ''N''), (''technologies'', JNull)]"

section \<open>Notions for the proofs\<close>

text \<open>
  The shape of the analytics dictionary during the fold: the entries of the dictionary
  display of \<^verbatim>\<open>transform\<close>, and no other key that the insights read.
\<close>

definition shaped :: "analytics_dict \<Rightarrow> bool" where
  "shaped a \<longleftrightarrow>
     (\<exists>t. map_of a ''total_projects'' = Some (AInt t))
   \<and> (\<exists>cats. map_of a ''categories'' = Some (ADist cats))
   \<and> (\<exists>stats. map_of a ''status_distribution'' = Some (ADist stats))
   \<and> (\<exists>techs. map_of a ''technologies'' = Some (ADist techs))
   \<and> (\<exists>xs. map_of a ''recent_projects'' = Some (AList xs))
   \<and> (\<exists>xs. map_of a ''featured_projects'' = Some (AList xs))
   \<and> map_of a ''projects'' = None"

text \<open>The same with the total and the sums of the two distributions.\<close>

definition folded :: "analytics_dict \<Rightarrow> int \<Rightarrow> int \<Rightarrow> int \<Rightarrow> bool" where
  "folded a t n m \<longleftrightarrow>
     shaped a
   \<and> map_of a ''total_projects'' = Some (AInt t)
   \<and> (\<exists>cats. map_of a ''categories'' = Some (ADist cats) \<and> sum_list (map snd cats) = n)
   \<and> (\<exists>stats. map_of a ''status_distribution'' = Some (ADist stats)
               \<and> sum_list (map snd stats) = m)"

text \<open>The labels that the fold counts have their types.\<close>

definition labels_typed :: "pydict \<Rightarrow> bool" where
  "labels_typed e \<longleftrightarrow> field_is e ''category'' is_str \<and> field_is e ''status'' is_str
     \<and> field_is e ''technologies'' is_str_list"

text \<open>A record of the data model with its two required fields.\<close>

definition passes :: "pydict \<Rightarrow> bool" where
  "passes p \<longleftrightarrow> record_typed p \<and> dict_contains p ''id'' \<and> dict_contains p ''title''"





section \<open>Basic facts\<close>

declare str_nat.simps [simp del] split_from.simps [simp del]

lemma bind_err_simps [simp]:
  "bind_err (Inl e) f = Inl e" "bind_err (Inr x) f = f x"
  by (simp_all add: bind_err_def)

lemma bind_err_eq_Inr: "bind_err m f = Inr y \<longleftrightarrow> (\<exists>x. m = Inr x \<and> f x = Inr y)"
  by (cases m) simp_all

lemma map_of_dict_set [simp]: "map_of (dict_set d k v) = (map_of d)(k \<mapsto> v)"
  by (simp add: dict_set_def update_conv')

lemma is_str_iff: "is_str v \<longleftrightarrow> (\<exists>s. v = JStr s)"
  by (cases v) (simp_all add: is_str_def)

section \<open>Facts about enrichment\<close>

text \<open>What a successful enrichment has stored, and what it has left alone.\<close>

lemma enrich_Inr:
  assumes "enrich_project_data L p = Inr e"
  shows "\<exists>seo fd. generate_seo_metadata p = Inr seo
     \<and> format_description (dict_get p ''shortDescription'' (JStr [])) = Inr fd
     \<and> map_of e ''slug'' =
         (case map_of p ''slug'' of
            Some v \<Rightarrow> Some v
          | None \<Rightarrow> (case map_of p ''title'' of
                       Some (JStr t) \<Rightarrow> Some (JStr (slug_of_title t))
                     | _ \<Rightarrow> None))
     \<and> map_of e ''duration_days'' =
         (case (map_of p ''startDate'', map_of p ''endDate'') of
            (Some sd, Some ed) \<Rightarrow> Some (JInt (calculate_duration L sd ed))
          | _ \<Rightarrow> map_of p ''duration_days'')
     \<and> map_of e ''content_hash'' = Some (JStr (generate_content_hash L p))
     \<and> map_of e ''seo_metadata'' = Some (JObj seo)
     \<and> map_of e ''data_quality_score'' = Some (calculate_data_quality_score p)
     \<and> map_of e ''formatted_description'' = Some (JStr fd)"
  using assms
  apply (simp add: enrich_project_data_def Let_def bind_err_eq_Inr dict_contains_def
      dict_item_def split: if_splits option.splits)
   apply (auto split: option.splits json.splits elim!: generate_slug.elims)
  done

text \<open>Enrichment of a record with the field types of the data model returns.\<close>

lemma seo_total:
  assumes "record_typed p"
  shows "\<exists>seo. generate_seo_metadata p = Inr seo"
proof -
  from assms obtain d where d: "slice_to 160 (dict_get p ''shortDescription'' (JStr [])) = Inr d"
    by (auto simp: record_typed_def field_is_def dict_get_def is_str_iff split: option.splits)
  from assms obtain ts
    where ts: "dict_get p ''technologies'' (JArr []) = JArr ts" "list_all is_str ts"
    by (auto simp: record_typed_def field_is_def dict_get_def is_str_list_def
        split: option.splits json.splits)
  then have kw: "\<exists>kw. join_json '', '' (JArr (take 5 ts)) = Inr kw"
    by (auto simp: list_all_iff is_str_def dest: in_set_takeD)
  from assms obtain ov
    where ov: "(case dict_get p ''content'' (JObj []) of
                  JObj content \<Rightarrow> Inr (dict_get content ''overview'' (JStr []))
                | _ \<Rightarrow> Inl AttributeError) = Inr (JStr ov)"
    by (auto simp: record_typed_def field_is_def dict_get_def is_content_def is_str_iff
        split: option.splits json.splits)
  from kw obtain kw' where "join_json '', '' (JArr (take 5 ts)) = Inr kw'" by blast
  then show ?thesis
    unfolding generate_seo_metadata_def using d ts ov by simp
qed

lemma format_total:
  assumes "record_typed p"
  shows "\<exists>fd. format_description (dict_get p ''shortDescription'' (JStr [])) = Inr fd"
  using assms
  by (auto simp: record_typed_def field_is_def dict_get_def is_str_iff format_description_def
      split: option.splits)

lemma enrich_total:
  assumes "record_typed p" and "dict_contains p ''slug'' \<or> dict_contains p ''title''"
  shows "\<exists>e. enrich_project_data L p = Inr e"
proof -
  obtain seo where seo: "generate_seo_metadata p = Inr seo"
    using seo_total[OF assms(1)] by blast
  obtain fd where fd: "format_description (dict_get p ''shortDescription'' (JStr [])) = Inr fd"
    using format_total[OF assms(1)] by blast
  have title: "dict_contains p ''title'' \<Longrightarrow> \<exists>t. map_of p ''title'' = Some (JStr t)"
    using assms(1) by (auto simp: record_typed_def field_is_def dict_contains_def is_str_iff)
  show ?thesis
    using seo fd assms(2) title
    by (auto simp: enrich_project_data_def Let_def dict_item_def dict_contains_def
        split: option.splits)
qed

lemma enrich_missing_title:
  assumes "\<not> dict_contains p ''slug''" "\<not> dict_contains p ''title''"
  shows "enrich_project_data L p = Inl (KeyError ''title'')"
  using assms by (simp add: enrich_project_data_def Let_def dict_item_def dict_contains_def)

section \<open>Facts about the fold\<close>

lemma sum_counts_bump:
  "sum_list (map snd (dict_set d k (dict_get d k 0 + 1))) = sum_list (map snd d) + (1::int)"
proof -
  have "sum_list (map snd (AList.update k (c + 1) d)) =
          sum_list (map snd d) + (1::int) + c - dict_get d k 0" for c
    by (induction d) (auto simp: dict_get_def)
  then show ?thesis by (simp add: dict_set_def)
qed

lemma count_in_Inr:
  assumes "count_in a name key = Inr a'"
  shows "\<exists>d. map_of a name = Some (ADist d) \<and> hashable key
           \<and> a' = dict_set a name (ADist (dict_set d key (dict_get d key 0 + 1)))"
  using assms
  by (auto simp: count_in_def bind_err_eq_Inr dict_item_def split: option.splits if_splits elim!: dist_of.elims)

lemma count_in_ok:
  assumes "map_of a name = Some (ADist d)" "hashable key"
  shows "count_in a name key = Inr (dict_set a name (ADist (dict_set d key (dict_get d key 0 + 1))))"
  using assms by (simp add: count_in_def dict_item_def)

lemma count_all_Inr:
  assumes "count_all a name ts = Inr a'" "map_of a name = Some (ADist d)"
  shows "(\<exists>d'. map_of a' = (map_of a)(name \<mapsto> ADist d')) \<and> list_all hashable ts"
  using assms
proof (induction ts arbitrary: a d)
  case Nil
  then have "map_of a' = (map_of a)(name \<mapsto> ADist d)" by (auto simp: fun_upd_idem)
  then show ?case by auto
next
  case (Cons t ts)
  from Cons.prems(1) obtain a1 where a1: "count_in a name t = Inr a1" "count_all a1 name ts = Inr a'"
    by (auto split: sum.splits)
  from count_in_Inr[OF a1(1)] Cons.prems(2) obtain d1 where
    d1: "hashable t" "a1 = dict_set a name (ADist d1)" by auto
  then have m1: "map_of a1 name = Some (ADist d1)" by simp
  from Cons.IH[OF a1(2) m1] obtain d' where
    d': "map_of a' = (map_of a1)(name \<mapsto> ADist d')" "list_all hashable ts" by blast
  from d'(1) d1(2) have "map_of a' = (map_of a)(name \<mapsto> ADist d')" by simp
  with d'(2) d1(1) show ?case by auto
qed

lemma count_all_ok:
  assumes "map_of a name = Some (ADist d)" "list_all hashable ts"
  shows "\<exists>a'. count_all a name ts = Inr a'"
  using assms
proof (induction ts arbitrary: a d)
  case Nil
  then show ?case by simp
next
  case (Cons t ts)
  then have "count_in a name t = Inr (dict_set a name (ADist (dict_set d t (dict_get d t 0 + 1))))"
    by (simp add: count_in_ok)
  moreover have "\<exists>a'. count_all (dict_set a name (ADist (dict_set d t (dict_get d t 0 + 1)))) name ts = Inr a'"
    using Cons.prems by (intro Cons.IH[where d="dict_set d t (dict_get d t 0 + 1)"]) simp_all
  ultimately show ?case by simp
qed

lemma append_to_Inr:
  assumes "append_to a name summary = Inr a'"
  shows "\<exists>xs s. map_of a name = Some (AList xs) \<and> summary = Inr s \<and> a' = dict_set a name (AList (xs @ [s]))"
  using assms
  by (auto simp: append_to_def bind_err_eq_Inr dict_item_def split: option.splits elim!: list_of_aval.elims)

lemma append_to_ok:
  assumes "map_of a name = Some (AList xs)"
  shows "append_to a name summary = (case summary of Inl e \<Rightarrow> Inl e | Inr s \<Rightarrow> Inr (dict_set a name (AList (xs @ [s]))))"
  using assms by (simp add: append_to_def dict_item_def split: sum.splits)


lemma update_analytics_steps:
  assumes "update_analytics L now a p = Inr a'"
  shows "\<exists>a1 techs a2 a3 a4.
    count_in a ''categories'' (dict_get p ''category'' (JStr ''uncategorized'')) = Inr a1
    \<and> iter_items (dict_get p ''technologies'' (JArr [])) = Inr techs
    \<and> count_all a1 ''technologies'' techs = Inr a2
    \<and> count_in a2 ''status_distribution'' (dict_get p ''status'' (JStr ''unknown'')) = Inr a3
    \<and> (a4 = a3 \<or> (\<exists>s. append_to a3 ''recent_projects'' s = Inr a4))
    \<and> (a' = a4 \<or> (\<exists>s. append_to a4 ''featured_projects'' s = Inr a'))"
proof -
  from assms obtain a1 techs a2 a3 a4 where
    s: "count_in a ''categories'' (dict_get p ''category'' (JStr ''uncategorized'')) = Inr a1"
       "iter_items (dict_get p ''technologies'' (JArr [])) = Inr techs"
       "count_all a1 ''technologies'' techs = Inr a2"
       "count_in a2 ''status_distribution'' (dict_get p ''status'' (JStr ''unknown'')) = Inr a3" and
    r: "(if is_recent_project L now p
         then append_to a3 ''recent_projects'' (recent_summary p)
         else Inr a3) = Inr a4" and
    f: "(if truthy (dict_get p ''featured'' (JBool False))
         then append_to a4 ''featured_projects'' (featured_summary p)
         else Inr a4) = Inr a'"
    unfolding update_analytics_def bind_err_eq_Inr by blast
  from r have r': "a4 = a3 \<or> (\<exists>s. append_to a3 ''recent_projects'' s = Inr a4)"
    by (auto split: if_splits)
  from f have f': "a' = a4 \<or> (\<exists>s. append_to a4 ''featured_projects'' s = Inr a')"
    by (auto split: if_splits)
  from s r' f' show ?thesis by blast
qed

lemma update_analytics_folded:
  assumes "update_analytics L now a p = Inr a'" and "folded a t n m"
  shows "folded a' t (n + 1) (m + 1)"
proof -
  from assms(1) obtain a1 techs a2 a3 a4 where
    s1: "count_in a ''categories'' (dict_get p ''category'' (JStr ''uncategorized'')) = Inr a1" and
    s3: "count_all a1 ''technologies'' techs = Inr a2" and
    s4: "count_in a2 ''status_distribution'' (dict_get p ''status'' (JStr ''unknown'')) = Inr a3" and
    s5: "a4 = a3 \<or> (\<exists>s. append_to a3 ''recent_projects'' s = Inr a4)" and
    s6: "a' = a4 \<or> (\<exists>s. append_to a4 ''featured_projects'' s = Inr a')"
    using update_analytics_steps[OF assms(1)] by blast
  from assms(2) obtain cats stats tech0 where
    c: "map_of a ''categories'' = Some (ADist cats)" "sum_list (map snd cats) = n" and
    st: "map_of a ''status_distribution'' = Some (ADist stats)" "sum_list (map snd stats) = m" and
    te: "map_of a ''technologies'' = Some (ADist tech0)"
    by (auto simp: folded_def shaped_def)
  from count_in_Inr[OF s1] c obtain cats' where
    m1: "map_of a1 = (map_of a)(''categories'' \<mapsto> ADist cats')" and
    n1: "sum_list (map snd cats') = n + 1"
    by (auto simp: sum_counts_bump)
  from te m1 have "map_of a1 ''technologies'' = Some (ADist tech0)" by simp
  from count_all_Inr[OF s3 this] obtain tech' where
    m2: "map_of a2 = (map_of a1)(''technologies'' \<mapsto> ADist tech')" by blast
  from st m1 m2 have "map_of a2 ''status_distribution'' = Some (ADist stats)" by simp
  with count_in_Inr[OF s4] st obtain stats' where
    m3: "map_of a3 = (map_of a2)(''status_distribution'' \<mapsto> ADist stats')" and
    n3: "sum_list (map snd stats') = m + 1"
    by (auto simp: sum_counts_bump)
  from s5 have m4: "map_of a4 = map_of a3 \<or> (\<exists>xs. map_of a4 = (map_of a3)(''recent_projects'' \<mapsto> AList xs))"
    by (auto dest!: append_to_Inr)
  from s6 have m5: "map_of a' = map_of a4 \<or> (\<exists>xs. map_of a' = (map_of a4)(''featured_projects'' \<mapsto> AList xs))"
    by (auto dest!: append_to_Inr)
  have f3: "folded a3 t (n + 1) (m + 1)"
    using assms(2) m1 m2 m3 n1 n3 by (simp add: folded_def shaped_def)
  have f4: "folded a4 t (n + 1) (m + 1)"
    using f3 m4 by (auto simp: folded_def shaped_def)
  show ?thesis
    using f4 m5 by (auto simp: folded_def shaped_def)
qed

lemma generate_insights_shaped:
  assumes "shaped a"
  shows "\<exists>ins. generate_insights a = Inr ins
           \<and> map_of ins ''average_project_duration_days'' = None"
proof -
  from assms obtain cats stats techs t where
    "map_of a ''categories'' = Some (ADist cats)"
    "map_of a ''status_distribution'' = Some (ADist stats)"
    "map_of a ''technologies'' = Some (ADist techs)"
    "map_of a ''total_projects'' = Some (AInt t)"
    "map_of a ''projects'' = None"
    by (auto simp: shaped_def)
  then show ?thesis
    by (simp add: generate_insights_def most_counted_def dict_item_def Let_def
        split: list.splits prod.splits)
qed

lemma initial_analytics_folded: "folded (initial_analytics L ps) (int (length ps)) 0 0"
  by (simp add: folded_def shaped_def initial_analytics_def)

lemma transform_loop_folded:
  assumes "transform_loop L i ps tp a = Inr (tp', a')" and "folded a t n m"
  shows "folded a' t (n + int (length ps)) (m + int (length ps))"
  using assms
proof (induction ps arbitrary: i tp a n m)
  case Nil
  then show ?case by simp
next
  case (Cons p ps)
  from Cons.prems(1) obtain e a1 where
    e: "enrich_project_data L p = Inr e" and
    u: "update_analytics L (clock L i) a e = Inr a1" and
    r: "transform_loop L (Suc i) ps (tp @ [e]) a1 = Inr (tp', a')"
    by (auto split: sum.splits)
  from update_analytics_folded[OF u Cons.prems(2)] have "folded a1 t (n + 1) (m + 1)" .
  from Cons.IH[OF r this] show ?case by (simp add: add.assoc)
qed

lemma transform_Inr:
  assumes "transform L ps = Inr r"
  shows "\<exists>a ins. folded a (int (length ps)) (int (length ps)) (int (length ps))
           \<and> generate_insights a = Inr ins
           \<and> map_of ins ''average_project_duration_days'' = None
           \<and> analytics r = dict_set a ''insights'' (AInsights ins)"
proof -
  from assms obtain tp a ins where
    l: "transform_loop L 0 ps [] (initial_analytics L ps) = Inr (tp, a)" and
    g: "generate_insights a = Inr ins" and
    r: "r = \<lparr>projects = tp, analytics = dict_set a ''insights'' (AInsights ins)\<rparr>"
    by (auto simp: transform_def split: sum.splits prod.splits)
  from transform_loop_folded[OF l initial_analytics_folded]
  have f: "folded a (int (length ps)) (int (length ps)) (int (length ps))" by simp
  then have "shaped a" by (simp add: folded_def)
  from generate_insights_shaped[OF this] g r f show ?thesis by auto
qed



lemma shaped_dist:
  assumes "shaped a" "name \<in> {''categories'', ''status_distribution'', ''technologies''}"
  shows "\<exists>d. map_of a name = Some (ADist d)"
  using assms by (auto simp: shaped_def)

lemma shaped_set_dist:
  assumes "shaped a" "name \<in> {''categories'', ''status_distribution'', ''technologies''}"
  shows "shaped (dict_set a name (ADist d))"
  using assms by (auto simp: shaped_def)

lemma shaped_set_list:
  assumes "shaped a" "name \<in> {''recent_projects'', ''featured_projects''}"
  shows "shaped (dict_set a name (AList xs))"
  using assms by (auto simp: shaped_def)

lemma shaped_count_in:
  assumes "shaped a" "name \<in> {''categories'', ''status_distribution'', ''technologies''}"
    "hashable key"
  shows "\<exists>a'. count_in a name key = Inr a' \<and> shaped a'"
proof -
  from shaped_dist[OF assms(1,2)] obtain d where d: "map_of a name = Some (ADist d)" by blast
  show ?thesis
    using count_in_ok[OF d assms(3)] shaped_set_dist[OF assms(1,2)] by simp
qed

lemma shaped_count_all:
  assumes "shaped a" "name \<in> {''categories'', ''status_distribution'', ''technologies''}"
    "list_all hashable ts"
  shows "\<exists>a'. count_all a name ts = Inr a' \<and> shaped a'"
  using assms
proof (induction ts arbitrary: a)
  case Nil
  then show ?case by simp
next
  case (Cons t ts)
  from shaped_count_in[OF Cons.prems(1,2), of t] Cons.prems(3)
  obtain a1 where a1: "count_in a name t = Inr a1" "shaped a1" by auto
  from Cons.IH[OF a1(2) Cons.prems(2)] Cons.prems(3) a1(1) show ?case by simp
qed

lemma shaped_append_to:
  assumes "shaped a" "name \<in> {''recent_projects'', ''featured_projects''}"
  shows "\<exists>a'. append_to a name (Inr s) = Inr a' \<and> shaped a'"
proof -
  from assms obtain xs where xs: "map_of a name = Some (AList xs)"
    by (auto simp: shaped_def)
  show ?thesis
    using append_to_ok[OF xs, of "Inr s"] shaped_set_list[OF assms] by simp
qed

lemma shaped_append_to_error:
  assumes "shaped a" "name \<in> {''recent_projects'', ''featured_projects''}"
  shows "append_to a name (Inl e) = Inl e"
proof -
  from assms obtain xs where xs: "map_of a name = Some (AList xs)"
    by (auto simp: shaped_def)
  show ?thesis
    using append_to_ok[OF xs, of "Inl e"] by simp
qed

text \<open>The counting part of the fold returns on typed labels.\<close>

lemma update_analytics_counts:
  assumes "shaped a" "labels_typed e"
  shows "\<exists>a3 ts. shaped a3 \<and> dict_get e ''technologies'' (JArr []) = JArr ts \<and>
     update_analytics L now a e =
       bind_err (if is_recent_project L now e
                 then append_to a3 ''recent_projects'' (recent_summary e)
                 else Inr a3) (\<lambda>a.
       if truthy (dict_get e ''featured'' (JBool False))
       then append_to a ''featured_projects'' (featured_summary e)
       else Inr a)"
proof -
  have hc: "hashable (dict_get e ''category'' (JStr ''uncategorized''))"
    using assms(2)
    by (auto simp: labels_typed_def field_is_def dict_get_def is_str_iff split: option.splits)
  have hs: "hashable (dict_get e ''status'' (JStr ''unknown''))"
    using assms(2)
    by (auto simp: labels_typed_def field_is_def dict_get_def is_str_iff split: option.splits)
  obtain ts where ts: "dict_get e ''technologies'' (JArr []) = JArr ts" "list_all is_str ts"
    using assms(2) by (auto simp: labels_typed_def field_is_def dict_get_def is_str_list_def
        split: option.splits json.splits)
  have ht: "list_all hashable ts"
    using ts(2) by (auto simp: list_all_iff is_str_iff)
  obtain a1 where
    a1: "count_in a ''categories'' (dict_get e ''category'' (JStr ''uncategorized'')) = Inr a1"
      "shaped a1"
    using shaped_count_in[OF assms(1) _ hc, of "''categories''"] by auto
  obtain a2 where a2: "count_all a1 ''technologies'' ts = Inr a2" "shaped a2"
    using shaped_count_all[OF a1(2) _ ht, of "''technologies''"] by auto
  obtain a3 where
    a3: "count_in a2 ''status_distribution'' (dict_get e ''status'' (JStr ''unknown'')) = Inr a3"
      "shaped a3"
    using shaped_count_in[OF a2(2) _ hs, of "''status_distribution''"] by auto
  show ?thesis
    apply (rule exI[of _ a3], rule exI[of _ ts])
    apply (simp add: update_analytics_def a1 ts a2 a3)
    done
qed

lemma update_analytics_total:
  assumes "shaped a" "labels_typed e" "dict_contains e ''id''" "dict_contains e ''title''"
  shows "\<exists>a'. update_analytics L now a e = Inr a'"
proof -
  from update_analytics_counts[OF assms(1,2), of L now] obtain a3 ts where
    a3: "shaped a3" and ts: "dict_get e ''technologies'' (JArr []) = JArr ts" and
    u: "update_analytics L now a e =
          bind_err (if is_recent_project L now e
                    then append_to a3 ''recent_projects'' (recent_summary e)
                    else Inr a3) (\<lambda>a.
          if truthy (dict_get e ''featured'' (JBool False))
          then append_to a ''featured_projects'' (featured_summary e)
          else Inr a)"
    by blast
  from assms(3,4) obtain i t where
    it: "dict_item e ''id'' = Inr i" "dict_item e ''title'' = Inr t"
    by (auto simp: dict_contains_def dict_item_def)
  obtain rs where rs: "recent_summary e = Inr rs"
    by (simp add: recent_summary_def it)
  obtain fs where fs: "featured_summary e = Inr fs"
    by (simp add: featured_summary_def it ts)
  have "\<exists>a4. shaped a4 \<and>
      (if is_recent_project L now e
       then append_to a3 ''recent_projects'' (recent_summary e)
       else Inr a3) = Inr a4"
    using a3 shaped_append_to[OF a3, of "''recent_projects''" rs] by (auto simp: rs)
  then obtain a4 where
    a4: "shaped a4"
      "(if is_recent_project L now e
        then append_to a3 ''recent_projects'' (recent_summary e)
        else Inr a3) = Inr a4"
    by blast
  show ?thesis
    unfolding u a4(2) using shaped_append_to[OF a4(1), of "''featured_projects''" fs]
    by (auto simp: fs)
qed

lemma update_analytics_missing_id:
  assumes "shaped a" "labels_typed e" "\<not> dict_contains e ''id''"
    "is_recent_project L now e \<or> truthy (dict_get e ''featured'' (JBool False))"
  shows "update_analytics L now a e = Inl (KeyError ''id'')"
proof -
  from update_analytics_counts[OF assms(1,2), of L now] obtain a3 ts where
    a3: "shaped a3" and
    u: "update_analytics L now a e =
          bind_err (if is_recent_project L now e
                    then append_to a3 ''recent_projects'' (recent_summary e)
                    else Inr a3) (\<lambda>a.
          if truthy (dict_get e ''featured'' (JBool False))
          then append_to a ''featured_projects'' (featured_summary e)
          else Inr a)"
    by blast
  from assms(3) have i: "dict_item e ''id'' = Inl (KeyError ''id'')"
    by (auto simp: dict_contains_def dict_item_def)
  have rs: "recent_summary e = Inl (KeyError ''id'')"
    by (simp add: recent_summary_def i)
  have fs: "featured_summary e = Inl (KeyError ''id'')"
    by (simp add: featured_summary_def i)
  show ?thesis
    unfolding u using assms(4) a3
    by (auto simp: rs fs shaped_append_to_error)
qed

lemma shaped_folded: "shaped a \<Longrightarrow> \<exists>t n m. folded a t n m"
  by (auto simp: shaped_def folded_def)

lemma update_analytics_shaped:
  assumes "update_analytics L now a p = Inr a'" and "shaped a"
  shows "shaped a'"
  using shaped_folded[OF assms(2)] update_analytics_folded[OF assms(1)]
  by (auto simp: folded_def)

lemma enrich_keeps:
  assumes "enrich_project_data L p = Inr e"
    "k \<noteq> ''slug''" "k \<noteq> ''duration_days''" "k \<noteq> ''content_hash''" "k \<noteq> ''seo_metadata''"
    "k \<noteq> ''data_quality_score''" "k \<noteq> ''formatted_description''"
  shows "map_of e k = map_of p k"
  using assms
  by (auto simp: enrich_project_data_def Let_def bind_err_eq_Inr split: if_splits)

lemma enrich_labels_typed:
  assumes "enrich_project_data L p = Inr e" "record_typed p"
  shows "labels_typed e"
  using assms(2) enrich_keeps[OF assms(1), of "''category''"]
    enrich_keeps[OF assms(1), of "''status''"] enrich_keeps[OF assms(1), of "''technologies''"]
  by (simp add: labels_typed_def record_typed_def field_is_def)


lemma enrich_recent:
  assumes "enrich_project_data L p = Inr e"
  shows "is_recent_project L now e = is_recent_project L now p"
  using enrich_keeps[OF assms, of "''endDate''"] enrich_keeps[OF assms, of "''startDate''"]
  by (simp add: is_recent_project_def is_recent_project_try_def dict_get_def)

lemma enrich_featured:
  assumes "enrich_project_data L p = Inr e"
  shows "dict_get e ''featured'' d = dict_get p ''featured'' d"
  using enrich_keeps[OF assms, of "''featured''"] by (simp add: dict_get_def)

lemma transform_loop_total:
  assumes "list_all passes ps" "shaped a"
  shows "\<exists>tp' a'. transform_loop L i ps tp a = Inr (tp', a') \<and> shaped a'"
  using assms
proof (induction ps arbitrary: i tp a)
  case Nil
  then show ?case by simp
next
  case (Cons p ps)
  then have p: "record_typed p" "dict_contains p ''id''" "dict_contains p ''title''"
    by (simp_all add: passes_def)
  from enrich_total[OF p(1), of L] p(3) obtain e where e: "enrich_project_data L p = Inr e"
    by blast
  have "dict_contains e ''id''" "dict_contains e ''title''"
    using p(2,3) enrich_keeps[OF e, of "''id''"] enrich_keeps[OF e, of "''title''"]
    by (simp_all add: dict_contains_def)
  from update_analytics_total[OF Cons.prems(2) enrich_labels_typed[OF e p(1)] this, of L "clock L i"]
  obtain a1 where a1: "update_analytics L (clock L i) a e = Inr a1" by blast
  from update_analytics_shaped[OF a1 Cons.prems(2)] have "shaped a1" .
  from Cons.IH[OF _ this, of "Suc i" "tp @ [e]"] Cons.prems(1) e a1 show ?case by simp
qed

lemma transform_loop_append:
  "transform_loop L i (pre @ rest) tp a =
     (case transform_loop L i pre tp a of
        Inl err \<Rightarrow> Inl err
      | Inr (tp', a') \<Rightarrow> transform_loop L (i + length pre) rest tp' a')"
  by (induction pre arbitrary: i tp a) (auto split: sum.splits)

lemma transform_total:
  assumes "list_all passes ps"
  shows "\<exists>r. transform L ps = Inr r"
proof -
  have "shaped (initial_analytics L ps)"
    using initial_analytics_folded[of L ps] by (simp add: folded_def)
  from transform_loop_total[OF assms this, of L 0 "[]"] obtain tp a where
    l: "transform_loop L 0 ps [] (initial_analytics L ps) = Inr (tp, a)" "shaped a" by blast
  from generate_insights_shaped[OF l(2)] obtain ins where "generate_insights a = Inr ins" by blast
  with l(1) show ?thesis by (simp add: transform_def)
qed

lemma transform_error_at:
  assumes "list_all passes pre"
    and "enrich_project_data L p = Inl err
         \<or> (\<exists>e. enrich_project_data L p = Inr e
                \<and> (\<forall>a. shaped a \<longrightarrow> update_analytics L (clock L (length pre)) a e = Inl err))"
  shows "transform L (pre @ p # post) = Inl err"
proof -
  have "shaped (initial_analytics L (pre @ p # post))"
    using initial_analytics_folded[of L "pre @ p # post"] by (simp add: folded_def)
  from transform_loop_total[OF assms(1) this, of L 0 "[]"] obtain tp a where
    l: "transform_loop L 0 pre [] (initial_analytics L (pre @ p # post)) = Inr (tp, a)" "shaped a"
    by blast
  have "transform_loop L (length pre) (p # post) tp a = Inl err"
    using assms(2) l(2) by (auto split: sum.splits)
  with l(1) show ?thesis
    by (simp add: transform_def transform_loop_append)
qed

section \<open>Facts about the dump\<close>

lemma distinct_keys_sort:
  assumes "distinct (map fst d)"
  shows "distinct (map fst (sort_key fst d))"
  using assms by (simp add: distinct_map)

lemma map_of_sort:
  assumes "distinct (map fst d)"
  shows "map_of (sort_key fst d) = map_of d"
  using assms distinct_keys_sort[OF assms] by (simp add: map_of_inject_set)

lemma map_by_keys:
  assumes "distinct (map fst xs)"
  shows "map g xs = map (\<lambda>k. g (k, the (map_of xs k))) (map fst xs)"
  using assms by (induction xs) (auto simp: rev_image_eqI)

lemma sorted_keys_unique:
  fixes d d' :: "(string \<times> 'v) list"
  assumes "distinct (map fst d)" "distinct (map fst d')" "fst ` set d = fst ` set d'"
  shows "map fst (sort_key fst d) = map fst (sort_key fst d')"
proof (rule sorted_distinct_set_unique)
  show "sorted (map fst (sort_key fst d))" "sorted (map fst (sort_key fst d'))" by simp_all
  show "distinct (map fst (sort_key fst d))" "distinct (map fst (sort_key fst d'))"
    using assms(1,2) by (simp_all add: distinct_keys_sort)
  show "set (map fst (sort_key fst d)) = set (map fst (sort_key fst d'))"
    using assms(3) by simp
qed

lemma same_keys:
  assumes "distinct (map fst d)" "distinct (map fst d')" "length d = length d'"
    "fst ` set d \<subseteq> fst ` set d'"
  shows "fst ` set d = fst ` set d'"
proof (rule card_subset_eq)
  show "finite (fst ` set d')" by simp
  show "fst ` set d \<subseteq> fst ` set d'" by fact
  have "card (fst ` set d) = length d" using assms(1) distinct_card[of "map fst d"] by simp
  moreover have "card (fst ` set d') = length d'" using assms(2) distinct_card[of "map fst d'"] by simp
  ultimately show "card (fst ` set d) = card (fst ` set d')" using assms(3) by simp
qed

lemma render_sorted:
  assumes "distinct (map fst d)"
  shows "map g (sort_key fst d) = map (\<lambda>k. g (k, the (map_of d k))) (map fst (sort_key fst d))"
  using map_by_keys[OF distinct_keys_sort[OF assms], of g] by (simp add: map_of_sort[OF assms])

lemma dumps_same_tree:
  "keys_distinct v \<Longrightarrow> keys_distinct w \<Longrightarrow> same_tree v w \<Longrightarrow> dumps v = dumps w"
proof (induction v arbitrary: w)
  case (JArr xs)
  then obtain ys where w: "w = JArr ys" and r: "list_all2 same_tree xs ys"
    by (cases w) auto
  from r JArr.IH JArr.prems(1,2) w have "map dumps xs = map dumps ys"
  proof (induction xs ys arbitrary: w rule: list_all2_induct)
    case Nil
    then show ?case by simp
  next
    case (Cons x xs y ys)
    then show ?case by (auto simp: list_all_iff)
  qed
  with w show ?case by simp
next
  case (JObj d)
  from JObj.prems(3) obtain d' where w: "w = JObj d'"
    by (cases w) auto
  from JObj.prems(3) w have len: "length d = length d'" and
    la: "list_all (\<lambda>kv. case map_of d' (fst kv) of None \<Rightarrow> False
                           | Some v' \<Rightarrow> same_tree (snd kv) v') d"
    by simp_all
  from la have
    each: "\<forall>kv\<in>set d. \<exists>v'. map_of d' (fst kv) = Some v' \<and> same_tree (snd kv) v'"
    by (auto simp: list_all_iff split: option.splits)
  from JObj.prems(1) have dd: "distinct (map fst d)" and kd: "\<forall>kv\<in>set d. keys_distinct (snd kv)"
    by (auto simp: list_all_iff)
  from JObj.prems(2) w have dd': "distinct (map fst d')" and kd': "\<forall>kv\<in>set d'. keys_distinct (snd kv)"
    by (auto simp: list_all_iff)
  have sub: "fst ` set d \<subseteq> fst ` set d'"
  proof
    fix k assume "k \<in> fst ` set d"
    then obtain kv where "kv \<in> set d" "k = fst kv" by auto
    with each obtain v' where "map_of d' k = Some v'" by auto
    then show "k \<in> fst ` set d'" by (auto dest: map_of_SomeD intro: rev_image_eqI)
  qed
  have keys: "map fst (sort_key fst d) = map fst (sort_key fst d')"
    by (rule sorted_keys_unique[OF dd dd' same_keys[OF dd dd' len sub]])
  let ?g = "\<lambda>kv. encode_basestring_ascii (fst kv) @ '': '' @ dumps (snd kv)"
  have "map ?g (sort_key fst d) = map ?g (sort_key fst d')"
    unfolding render_sorted[OF dd, of ?g] render_sorted[OF dd', of ?g] keys
  proof (rule map_cong[OF refl])
    fix k assume "k \<in> set (map fst (sort_key fst d'))"
    then have "k \<in> fst ` set d" using keys[symmetric] by (metis list.set_map set_sort)
    then obtain v where v: "(k, v) \<in> set d" by auto
    with dd have mv: "map_of d k = Some v" by simp
    from each v obtain v' where mv': "map_of d' k = Some v'" and st: "same_tree v v'" by auto
    from mv' have "(k, v') \<in> set d'" by (rule map_of_SomeD)
    with kd' have "keys_distinct v'" by auto
    moreover from v kd have "keys_distinct v" by auto
    ultimately have "dumps v = dumps v'"
      using JObj.IH[of "(k, v)" v v'] v st by simp
    then show "?g (k, the (map_of d k)) = ?g (k, the (map_of d' k))"
      by (simp add: mv mv')
  qed
  with w show ?case by simp
qed (auto split: json.splits)

section \<open>Facts about slugs\<close>













section \<open>The claims\<close>

text \<open>
  C1. The insights never contain \<^verbatim>\<open>average_project_duration_days\<close>: the insight
  generator looks for the projects under the key \<^verbatim>\<open>projects\<close> of the analytics
  dictionary, a key that \<^verbatim>\<open>transform\<close> never stores, so the list of completed
  projects with a duration is always empty. The claim asks for the mean of the durations
  whenever a completed project has one.
\<close>

theorem average_duration_never_reported:
  assumes "transform L ps = Inr r"
  shows "\<exists>ins. map_of (analytics r) ''insights'' = Some (AInsights ins)
           \<and> map_of ins ''average_project_duration_days'' = None"
  using transform_Inr[OF assms] by auto

lemma completed_record_eval:
  "(case transform example_lib [completed_record] of
      Inl err \<Rightarrow> None
    | Inr r \<Rightarrow> Some (map (\<lambda>e. (map_of e ''status'', map_of e ''duration_days'')) (projects r)))
   = Some [(Some (JStr ''completed''), Some (JInt 10))]"
  by code_simp

theorem average_duration_never_reported_witness:
  "\<exists>r e ins. transform example_lib [completed_record] = Inr r
      \<and> projects r = [e]
      \<and> map_of e ''status'' = Some (JStr ''completed'')
      \<and> map_of e ''duration_days'' = Some (JInt 10)
      \<and> map_of (analytics r) ''insights'' = Some (AInsights ins)
      \<and> map_of ins ''average_project_duration_days'' = None"
proof -
  from completed_record_eval obtain r where
    r: "transform example_lib [completed_record] = Inr r" and
    m: "map (\<lambda>e. (map_of e ''status'', map_of e ''duration_days'')) (projects r)
          = [(Some (JStr ''completed''), Some (JInt 10))]"
    by (cases "transform example_lib [completed_record]") auto
  from m obtain e where
    e: "projects r = [e]" "map_of e ''status'' = Some (JStr ''completed'')"
      "map_of e ''duration_days'' = Some (JInt 10)"
    by (cases "projects r") auto
  from average_duration_never_reported[OF r] r e show ?thesis by blast
qed

lemma scenario_enrichment_eval:
  "(case enrich_project_data L scenario_record of
      Inl err \<Rightarrow> None
    | Inr e \<Rightarrow> Some (map_of e ''slug'', map_of e ''formatted_description'',
                     map_of e ''data_quality_score''))
   = Some (Some (JStr ''my-cool-app''),
           Some (JStr (''It works. It scales.'' @ [CHR 0x0A, CHR 0x0A] @ ''It ships..'')),
           Some (JInt 25))"
  by code_simp

text \<open>
  C2. On the scenario record the slug is \<^verbatim>\<open>my-cool-app\<close> and the data quality score
  is 25, but the formatted description ends with two periods: the description is split
  at \<^verbatim>\<open>'. '\<close>, so the last sentence keeps its own period, and
  \<^verbatim>\<open>_format_description\<close> appends another one. The claim expects one period.
\<close>

theorem scenario_enrichment:
  "\<exists>e. enrich_project_data L scenario_record = Inr e
      \<and> map_of e ''slug'' = Some (JStr ''my-cool-app'')
      \<and> map_of e ''formatted_description''
          = Some (JStr (''It works. It scales.'' @ [CHR 0x0A, CHR 0x0A] @ ''It ships..''))
      \<and> map_of e ''data_quality_score'' = Some (JInt 25)"
  using scenario_enrichment_eval[of L]
  by (cases "enrich_project_data L scenario_record") auto

text \<open>
  C3. When \<^verbatim>\<open>transform\<close> returns, the counts of the categories and the counts of the
  status distribution both add up to \<^verbatim>\<open>total_projects\<close>, the number of input
  records.
\<close>

theorem distribution_sums_equal_total:
  assumes "transform L ps = Inr r"
  shows "\<exists>cats stats.
           map_of (analytics r) ''categories'' = Some (ADist cats)
         \<and> map_of (analytics r) ''status_distribution'' = Some (ADist stats)
         \<and> map_of (analytics r) ''total_projects'' = Some (AInt (int (length ps)))
         \<and> sum_list (map snd cats) = int (length ps)
         \<and> sum_list (map snd stats) = int (length ps)"
  using transform_Inr[OF assms] by (auto simp: folded_def)

lemma two_records_pass: "list_all passes [scenario_record, completed_record]"
  by code_simp

theorem distribution_sums_equal_total_witness:
  "\<exists>r cats stats. transform example_lib [scenario_record, completed_record] = Inr r
      \<and> map_of (analytics r) ''categories'' = Some (ADist cats)
      \<and> map_of (analytics r) ''status_distribution'' = Some (ADist stats)
      \<and> map_of (analytics r) ''total_projects'' = Some (AInt 2)
      \<and> sum_list (map snd cats) = 2
      \<and> sum_list (map snd stats) = 2"
proof -
  from transform_total[OF two_records_pass, of example_lib] obtain r where
    r: "transform example_lib [scenario_record, completed_record] = Inr r" by blast
  from distribution_sums_equal_total[OF r] r show ?thesis by auto
qed

text \<open>
  C4. Two records without repeated keys that are equal as key-value trees have the same
  content hash, whatever the order of their keys at any level; the hash that enrichment
  stores is this function of the record as it was before enrichment. The digest itself
  is any function of the dumped text.
\<close>

theorem content_hash_ignores_key_order:
  assumes "keys_distinct (JObj p)" and "keys_distinct (JObj q)" and "same_tree (JObj p) (JObj q)"
  shows "generate_content_hash L p = generate_content_hash L q
       \<and> (\<forall>e e'. enrich_project_data L p = Inr e \<and> enrich_project_data L q = Inr e'
            \<longrightarrow> map_of e ''content_hash'' = Some (JStr (generate_content_hash L p))
              \<and> map_of e' ''content_hash'' = map_of e ''content_hash'')"
proof -
  have h: "generate_content_hash L p = generate_content_hash L q"
    using dumps_same_tree[OF assms] by (simp add: generate_content_hash_def)
  show ?thesis
  proof (intro conjI allI impI)
    show "generate_content_hash L p = generate_content_hash L q" by (rule h)
  next
    fix e e'
    assume a: "enrich_project_data L p = Inr e \<and> enrich_project_data L q = Inr e'"
    then have "enrich_project_data L p = Inr e" ..
    from enrich_Inr[OF this]
    show "map_of e ''content_hash'' = Some (JStr (generate_content_hash L p))" by blast
  next
    fix e e'
    assume a: "enrich_project_data L p = Inr e \<and> enrich_project_data L q = Inr e'"
    then have 1: "enrich_project_data L p = Inr e" and 2: "enrich_project_data L q = Inr e'"
      by simp_all
    from enrich_Inr[OF 1] enrich_Inr[OF 2] h
    show "map_of e' ''content_hash'' = map_of e ''content_hash''" by auto
  qed
qed

lemma permuted_facts:
  "keys_distinct (JObj permuted_a) \<and> keys_distinct (JObj permuted_b)
   \<and> same_tree (JObj permuted_a) (JObj permuted_b) \<and> permuted_a \<noteq> permuted_b
   \<and> record_typed permuted_a \<and> record_typed permuted_b
   \<and> dict_contains permuted_a ''title'' \<and> dict_contains permuted_b ''title''"
  by code_simp

theorem content_hash_ignores_key_order_witness:
  "keys_distinct (JObj permuted_a) \<and> keys_distinct (JObj permuted_b)
   \<and> same_tree (JObj permuted_a) (JObj permuted_b) \<and> permuted_a \<noteq> permuted_b
   \<and> generate_content_hash example_lib permuted_a = generate_content_hash example_lib permuted_b
   \<and> (\<exists>e e'. enrich_project_data example_lib permuted_a = Inr e
         \<and> enrich_project_data example_lib permuted_b = Inr e'
         \<and> map_of e' ''content_hash'' = map_of e ''content_hash'')"
proof -
  from permuted_facts enrich_total[of permuted_a example_lib] enrich_total[of permuted_b example_lib]
  obtain e e' where
    e: "enrich_project_data example_lib permuted_a = Inr e"
       "enrich_project_data example_lib permuted_b = Inr e'"
    by blast
  from permuted_facts have k: "keys_distinct (JObj permuted_a)" "keys_distinct (JObj permuted_b)"
    "same_tree (JObj permuted_a) (JObj permuted_b)" by simp_all
  from content_hash_ignores_key_order[OF k, of example_lib] e permuted_facts
  show ?thesis by blast
qed

lemma calculate_duration_eq:
  "calculate_duration L sd ed =
     (case (parse_iso L sd, parse_iso L ed) of
        (Inr s, Inr t) \<Rightarrow>
          if same_awareness s t then (instant_us t - instant_us s) div day_us else 0
      | _ \<Rightarrow> 0)"
  by (auto simp: calculate_duration_def calculate_duration_try_def datetime_sub_def
      same_awareness_def instant_us_def timedelta_days_def split: sum.splits option.splits)

text \<open>
  C5, as amended. For a record with both dates, \<^verbatim>\<open>duration_days\<close> is the floor of
  (end - start) in days when both dates parse and are both naive or both offset-aware;
  it is 0 when a date does not parse or when only one of them carries an offset. The
  dates never make enrichment raise: it returns on every record with the field types of
  the data model (which do not constrain the dates) and a title or a slug.
\<close>

theorem duration_days_floor:
  assumes "map_of p ''startDate'' = Some sd" and "map_of p ''endDate'' = Some ed"
  shows "(\<forall>e. enrich_project_data L p = Inr e \<longrightarrow>
            map_of e ''duration_days'' =
              Some (JInt (case (parse_iso L sd, parse_iso L ed) of
                            (Inr s, Inr t) \<Rightarrow>
                              if same_awareness s t
                              then (instant_us t - instant_us s) div day_us else 0
                          | _ \<Rightarrow> 0)))
       \<and> (record_typed p \<and> (dict_contains p ''slug'' \<or> dict_contains p ''title'')
            \<longrightarrow> (\<exists>e. enrich_project_data L p = Inr e))"
proof (intro conjI allI impI)
  fix e
  assume "enrich_project_data L p = Inr e"
  from enrich_Inr[OF this] assms
  have "map_of e ''duration_days'' = Some (JInt (calculate_duration L sd ed))" by auto
  then show "map_of e ''duration_days'' =
              Some (JInt (case (parse_iso L sd, parse_iso L ed) of
                            (Inr s, Inr t) \<Rightarrow>
                              if same_awareness s t
                              then (instant_us t - instant_us s) div day_us else 0
                          | _ \<Rightarrow> 0))"
    by (simp only: calculate_duration_eq)
next
  assume "record_typed p \<and> (dict_contains p ''slug'' \<or> dict_contains p ''title'')"
  then show "\<exists>e. enrich_project_data L p = Inr e"
    using enrich_total[of p L] by blast
qed

lemma reversed_record_facts:
  "map_of reversed_record ''startDate'' = Some (JStr ''2024-01-02'')
   \<and> map_of reversed_record ''endDate'' = Some (JStr ''2024-01-01T12:00:00'')
   \<and> record_typed reversed_record \<and> dict_contains reversed_record ''title''"
  by code_simp

lemma reversed_dates_eval:
  "(case (parse_iso example_lib (JStr ''2024-01-02''),
          parse_iso example_lib (JStr ''2024-01-01T12:00:00'')) of
      (Inr s, Inr t) \<Rightarrow>
        if same_awareness s t then (instant_us t - instant_us s) div day_us else 0
    | _ \<Rightarrow> 0) = - 1"
  by code_simp

theorem duration_days_floor_witness:
  "map_of reversed_record ''startDate'' = Some (JStr ''2024-01-02'')
   \<and> map_of reversed_record ''endDate'' = Some (JStr ''2024-01-01T12:00:00'')
   \<and> (\<exists>e. enrich_project_data example_lib reversed_record = Inr e
          \<and> map_of e ''duration_days'' = Some (JInt (- 1)))"
  using duration_days_floor[of reversed_record "JStr ''2024-01-02''"
      "JStr ''2024-01-01T12:00:00''" example_lib]
    reversed_record_facts reversed_dates_eval
  by auto

text \<open>
  C5 as stated fails: an end date twelve hours before the start date gives -1, where
  truncation toward zero gives 0.
\<close>

theorem duration_truncation_counterexample:
  "parse_iso example_lib (JStr ''2024-01-02'') = Inr (Datetime 63839750400000000 None)
   \<and> parse_iso example_lib (JStr ''2024-01-01T12:00:00'') = Inr (Datetime 63839707200000000 None)
   \<and> whole_days_toward_zero (63839707200000000 - 63839750400000000) = 0
   \<and> calculate_duration example_lib (JStr ''2024-01-02'') (JStr ''2024-01-01T12:00:00'') = - 1
   \<and> (case enrich_project_data example_lib reversed_record of
         Inl err \<Rightarrow> None
       | Inr e \<Rightarrow> map_of e ''duration_days'') = Some (JInt (- 1))"
  by code_simp

lemma seo_reading_time:
  assumes "generate_seo_metadata p = Inr m"
  shows "map_of m ''reading_time''
           = Some (JStr (str_int (min (max (int (overview_length p) div 200) 1) 10)))"
proof -
  from assms obtain md kw ov n where
    ov: "(case dict_get p ''content'' (JObj []) of
            JObj content \<Rightarrow> Inr (dict_get content ''overview'' (JStr []))
          | _ \<Rightarrow> Inl AttributeError) = Inr ov" and
    n: "py_len ov = Inr n" and
    m: "m = [(''meta_description'', md), (''keywords'', JStr kw),
             (''reading_time'', JStr (str_int (min (max (int n div 200) 1) 10)))]"
    unfolding generate_seo_metadata_def bind_err_eq_Inr by auto
  from ov n have "overview_length p = n"
    by (auto simp: overview_length_def dict_get_def split: option.splits json.splits)
  with m show ?thesis by simp
qed

text \<open>
  C6, as amended. The \<^verbatim>\<open>reading_time\<close> of the SEO metadata is the decimal text of
  the integer floor(length of \<^verbatim>\<open>content.overview\<close> / 200) clamped to [1, 10]; it is
  the text \<^verbatim>\<open>1\<close> when the overview is missing or empty.
\<close>

theorem reading_time_text:
  assumes "enrich_project_data L p = Inr e"
  shows "\<exists>m. map_of e ''seo_metadata'' = Some (JObj m)
           \<and> map_of m ''reading_time''
               = Some (JStr (str_int (min (max (int (overview_length p) div 200) 1) 10)))
           \<and> (overview_length p = 0 \<longrightarrow> map_of m ''reading_time'' = Some (JStr ''1''))"
proof -
  from enrich_Inr[OF assms] obtain m where
    m: "generate_seo_metadata p = Inr m" "map_of e ''seo_metadata'' = Some (JObj m)" by blast
  have one: "str_int 1 = ''1''" by code_simp
  from seo_reading_time[OF m(1)] m(2) one show ?thesis by auto
qed

lemma overview_record_eval:
  "(case enrich_project_data example_lib overview_record of
      Inl err \<Rightarrow> False | Inr e \<Rightarrow> True)
   \<and> (case enrich_project_data example_lib scenario_record of
      Inl err \<Rightarrow> False | Inr e \<Rightarrow> True)
   \<and> str_int (min (max (int (overview_length overview_record) div 200) 1) 10) = ''2''
   \<and> overview_length scenario_record = 0"
  by code_simp

theorem reading_time_text_witness:
  "(\<exists>e m. enrich_project_data example_lib overview_record = Inr e
      \<and> map_of e ''seo_metadata'' = Some (JObj m)
      \<and> map_of m ''reading_time'' = Some (JStr ''2''))
   \<and> (\<exists>e m. enrich_project_data example_lib scenario_record = Inr e
      \<and> map_of e ''seo_metadata'' = Some (JObj m)
      \<and> map_of m ''reading_time'' = Some (JStr ''1''))"
proof -
  from overview_record_eval obtain e1 e2 where
    e: "enrich_project_data example_lib overview_record = Inr e1"
       "enrich_project_data example_lib scenario_record = Inr e2"
    by (auto split: sum.splits)
  from reading_time_text[OF e(1)] reading_time_text[OF e(2)] e overview_record_eval
  show ?thesis by auto
qed

text \<open>
  C6 as stated fails: the value is a string (\<^verbatim>\<open>str(...)\<close> in the source), not an
  integer.
\<close>

theorem reading_time_integer_counterexample:
  "(case generate_seo_metadata scenario_record of
      Inl err \<Rightarrow> None
    | Inr m \<Rightarrow> map_of m ''reading_time'') = Some (JStr ''1'')
   \<and> (case generate_seo_metadata scenario_record of
      Inl err \<Rightarrow> None
    | Inr m \<Rightarrow> map_of m ''reading_time'')
      \<noteq> Some (JInt (min (max (int (overview_length scenario_record) div 200) 1) 10))"
  by code_simp


text \<open>
  C8. A record whose end date is written in UTC (\<^verbatim>\<open>...Z\<close>) and lies ten days before
  the run is not recent for \<^verbatim>\<open>_is_recent_project\<close>, and \<^verbatim>\<open>recent_projects\<close> stays
  empty: the date parses to an offset-aware \<^verbatim>\<open>datetime\<close>, its comparison with the naive
  \<^verbatim>\<open>datetime.now() - timedelta(days=180)\<close> raises \<^verbatim>\<open>TypeError\<close>, and the bare
  \<^verbatim>\<open>except\<close> answers \<^verbatim>\<open>False\<close>. The same date without the suffix is recent.
\<close>

theorem utc_date_is_never_recent:
  "parse_iso example_lib (JStr ''2026-10-25T12:00:00Z'')
     = Inr (Datetime (example_now - 10 * day_us) (Some 0))
   \<and> \<not> is_recent_project example_lib example_now recent_z_record
   \<and> is_recent_project example_lib example_now recent_naive_record
   \<and> (case transform example_lib [recent_z_record] of
         Inl err \<Rightarrow> None
       | Inr r \<Rightarrow> map_of (analytics r) ''recent_projects'') = Some (AList [])"
  by code_simp

text \<open>In general only naive dates can be recent.\<close>

lemma is_recent_project_iff:
  "is_recent_project L now p \<longleftrightarrow>
     (\<exists>d. truthy (dict_get p ''endDate'' (dict_get p ''startDate'' (JStr [])))
        \<and> parse_iso L (dict_get p ''endDate'' (dict_get p ''startDate'' (JStr []))) = Inr d
        \<and> utcoffset d = None
        \<and> 0 \<le> now - 180 * day_us
        \<and> now - 180 * day_us < local_us d)"
  by (auto simp: is_recent_project_def is_recent_project_try_def Let_def datetime_gt_def
      bind_err_def split: sum.splits option.splits)

text \<open>
  C9, as amended. The transform stage returns on every input whose records contain
  \<^verbatim>\<open>id\<close> and \<^verbatim>\<open>title\<close> and have the field types of the data model (strings for
  title, short description, category and status, a list of strings for the
  technologies, a mapping for the content, with a string as overview). After such
  records, a record with neither \<^verbatim>\<open>title\<close> nor \<^verbatim>\<open>slug\<close> ends the run with
  \<^verbatim>\<open>KeyError('title')\<close>, and a typed record without \<^verbatim>\<open>id\<close> that is recent or
  featured ends it with \<^verbatim>\<open>KeyError('id')\<close>: nothing catches these inside
  \<^verbatim>\<open>transform\<close>.
\<close>

theorem transform_total_or_key_error:
  "(list_all passes ps \<longrightarrow> (\<exists>r. transform L ps = Inr r))
   \<and> (list_all passes pre \<and> \<not> dict_contains p ''title'' \<and> \<not> dict_contains p ''slug''
        \<longrightarrow> transform L (pre @ p # post) = Inl (KeyError ''title''))
   \<and> (list_all passes pre \<and> record_typed q
        \<and> (dict_contains q ''title'' \<or> dict_contains q ''slug'') \<and> \<not> dict_contains q ''id''
        \<and> (is_recent_project L (clock L (length pre)) q
             \<or> truthy (dict_get q ''featured'' (JBool False)))
        \<longrightarrow> transform L (pre @ q # post) = Inl (KeyError ''id''))"
proof (intro conjI impI)
  assume "list_all passes ps"
  then show "\<exists>r. transform L ps = Inr r" by (rule transform_total)
next
  assume a: "list_all passes pre \<and> \<not> dict_contains p ''title'' \<and> \<not> dict_contains p ''slug''"
  then have "enrich_project_data L p = Inl (KeyError ''title'')"
    by (simp add: enrich_missing_title)
  with a show "transform L (pre @ p # post) = Inl (KeyError ''title'')"
    by (intro transform_error_at) simp_all
next
  assume a: "list_all passes pre \<and> record_typed q
        \<and> (dict_contains q ''title'' \<or> dict_contains q ''slug'') \<and> \<not> dict_contains q ''id''
        \<and> (is_recent_project L (clock L (length pre)) q
             \<or> truthy (dict_get q ''featured'' (JBool False)))"
  then obtain e where e: "enrich_project_data L q = Inr e"
    using enrich_total[of q L] by blast
  have lt: "labels_typed e" using enrich_labels_typed[OF e] a by simp
  have noid: "\<not> dict_contains e ''id''"
    using a enrich_keeps[OF e, of "''id''"] by (simp add: dict_contains_def)
  have trig: "is_recent_project L (clock L (length pre)) e
             \<or> truthy (dict_get e ''featured'' (JBool False))"
    using a by (simp add: enrich_recent[OF e] enrich_featured[OF e])
  have "\<forall>s. shaped s \<longrightarrow> update_analytics L (clock L (length pre)) s e = Inl (KeyError ''id'')"
    using update_analytics_missing_id[OF _ lt noid trig] by blast
  with e a show "transform L (pre @ q # post) = Inl (KeyError ''id'')"
    by (intro transform_error_at) auto
qed

lemma one_record_passes: "list_all passes [scenario_record]"
  by code_simp

lemma untitled_record_facts:
  "\<not> dict_contains untitled_record ''title'' \<and> \<not> dict_contains untitled_record ''slug''"
  by code_simp

lemma featured_without_id_facts:
  "record_typed featured_without_id \<and> dict_contains featured_without_id ''title''
   \<and> \<not> dict_contains featured_without_id ''id''
   \<and> truthy (dict_get featured_without_id ''featured'' (JBool False))"
  by code_simp

theorem transform_total_or_key_error_witness:
  "list_all passes [scenario_record, completed_record]
   \<and> (\<exists>r. transform example_lib [scenario_record, completed_record] = Inr r)
   \<and> transform example_lib ([scenario_record] @ untitled_record # [completed_record])
       = Inl (KeyError ''title'')
   \<and> transform example_lib ([scenario_record] @ featured_without_id # [completed_record])
       = Inl (KeyError ''id'')"
  using transform_total_or_key_error[of "[scenario_record, completed_record]" example_lib
      "[scenario_record]" untitled_record "[completed_record]" featured_without_id]
    two_records_pass one_record_passes untitled_record_facts featured_without_id_facts
  by blast

text \<open>
  C9 as stated fails: the keys \<^verbatim>\<open>id\<close> and \<^verbatim>\<open>title\<close> do not suffice. A record that
  has both and \<^verbatim>\<open>null\<close> for its technologies ends the run with \<^verbatim>\<open>TypeError\<close>
  (\<^verbatim>\<open>None[:5]\<close> in \<^verbatim>\<open>_generate_seo_metadata\<close>).
\<close>

theorem id_and_title_not_enough_counterexample:
  "dict_contains null_technologies_record ''id''
   \<and> dict_contains null_technologies_record ''title''
   \<and> transform example_lib [null_technologies_record] = Inl TypeError"
  by code_simp

text \<open>
  C10. A record that already has a \<^verbatim>\<open>slug\<close> key keeps the value of that key verbatim
  through enrichment, whatever the value is: it is not validated, derived again,
  lower-cased or made URL-safe. Enrichment of such a record returns when its fields
  have the types of the data model (a title is not needed).
\<close>

theorem slug_passes_through:
  assumes "map_of p ''slug'' = Some v"
  shows "(\<forall>e. enrich_project_data L p = Inr e \<longrightarrow> map_of e ''slug'' = Some v)
       \<and> (record_typed p \<longrightarrow> (\<exists>e. enrich_project_data L p = Inr e))"
proof (intro conjI allI impI)
  fix e
  assume "enrich_project_data L p = Inr e"
  from enrich_Inr[OF this] assms show "map_of e ''slug'' = Some v" by auto
next
  assume "record_typed p"
  then show "\<exists>e. enrich_project_data L p = Inr e"
    using assms enrich_total[of p L] by (simp add: dict_contains_def)
qed

lemma slugged_record_typed: "record_typed slugged_record \<and> record_typed empty_slug_record"
  by code_simp

theorem slug_passes_through_witness:
  "map_of slugged_record ''slug'' = Some (JStr ''Not A/Slug '')
   \<and> record_typed slugged_record
   \<and> (\<exists>e. enrich_project_data example_lib slugged_record = Inr e
          \<and> map_of e ''slug'' = Some (JStr ''Not A/Slug ''))
   \<and> map_of empty_slug_record ''slug'' = Some (JStr [])
   \<and> record_typed empty_slug_record
   \<and> (\<exists>e. enrich_project_data example_lib empty_slug_record = Inr e
          \<and> map_of e ''slug'' = Some (JStr []))"
proof -
  have s: "map_of slugged_record ''slug'' = Some (JStr ''Not A/Slug '')"
    by (simp add: slugged_record_def)
  have t: "map_of empty_slug_record ''slug'' = Some (JStr [])"
    by (simp add: empty_slug_record_def)
  from slug_passes_through[OF s, of example_lib] slug_passes_through[OF t, of example_lib]
    slugged_record_typed s t
  show ?thesis by blast
qed

end
